theory Spec2Isabelle
  imports Complex_Main
begin

section \<open>Review scraper: strings, dates and the date filter\<close>

text \<open>
  The program is one Python module, \<^verbatim>\<open>code.py\<close>. Its library calls
  (\<^verbatim>\<open>datetime.strptime\<close>, \<^verbatim>\<open>float\<close>, \<^verbatim>\<open>requests.get\<close>, the HTML
  selectors of BeautifulSoup and \<^verbatim>\<open>json.dump\<close>) are not part of the module. The
  functions of the module take them as arguments, so every theorem below holds for
  any behaviour of the libraries that meets its stated hypotheses.

  Strings are lists of \<^typ>\<open>char\<close>. \<^verbatim>\<open>str.lower\<close>, \<^verbatim>\<open>str.replace\<close> and
  \<^verbatim>\<open>str.strip\<close> are given on the ASCII range; other characters are left unchanged.
\<close>

subsection \<open>String helpers of the Python runtime\<close>

definition lower_char :: "char \<Rightarrow> char" where
  "lower_char c =
     (case map_of (zip ''ABCDEFGHIJKLMNOPQRSTUVWXYZ'' ''abcdefghijklmnopqrstuvwxyz'') c of
        Some d \<Rightarrow> d
      | None \<Rightarrow> c)"

definition lower :: "string \<Rightarrow> string" where
  "lower s = map lower_char s"

definition replace_char :: "char \<Rightarrow> char \<Rightarrow> string \<Rightarrow> string" where
  "replace_char a b s = map (\<lambda>c. if c = a then b else c) s"

text \<open>The characters \<^verbatim>\<open>str.isspace\<close> accepts below code point 128.\<close>

definition isspace :: "char \<Rightarrow> bool" where
  "isspace c \<longleftrightarrow>
     c \<in> set [CHR 0x20, CHR 0x09, CHR 0x0A, CHR 0x0B, CHR 0x0C, CHR 0x0D,
              CHR 0x1C, CHR 0x1D, CHR 0x1E, CHR 0x1F]"

definition strip :: "string \<Rightarrow> string" where
  "strip s = rev (dropWhile isspace (rev (dropWhile isspace s)))"

definition digit_char :: "nat \<Rightarrow> char" where
  "digit_char d = ''0123456789'' ! d"

text \<open>\<^verbatim>\<open>str(n)\<close> for an integer: decimal digits, with a minus sign below zero.\<close>

fun str_nat :: "nat \<Rightarrow> string" where
  "str_nat n = (if n < 10 then [digit_char n] else str_nat (n div 10) @ [digit_char (n mod 10)])"

declare str_nat.simps [simp del]

definition str_int :: "int \<Rightarrow> string" where
  "str_int i = (if i < 0 then CHR ''-'' # str_nat (nat (- i)) else str_nat (nat i))"

subsection \<open>Calendar dates\<close>

text \<open>
  A \<^verbatim>\<open>datetime.date\<close> is a year, a month and a day; Python compares two of them
  as the triples.
\<close>

datatype pydate = Date (year_of: nat) (month_of: nat) (day_of: nat)

fun date_le :: "pydate \<Rightarrow> pydate \<Rightarrow> bool" where
  "date_le (Date y1 m1 d1) (Date y2 m2 d2) \<longleftrightarrow>
     y1 < y2 \<or> (y1 = y2 \<and> (m1 < m2 \<or> (m1 = m2 \<and> d1 \<le> d2)))"

subsection \<open>The date filter\<close>

text \<open>
  \<^verbatim>\<open>in_range\<close> (lines 46 to 54). The argument \<open>strptime\<close> stands for
  \<^verbatim>\<open>datetime.strptime(text, fmt).date()\<close>: \<open>None\<close> is the \<^verbatim>\<open>ValueError\<close> the
  loop catches. The loop returns at the first format that parses.
\<close>

type_synonym strptime_fn = "string \<Rightarrow> string \<Rightarrow> pydate option"

definition date_formats :: "string list" where
  "date_formats = [''%B %d, %Y'', ''%b %d, %Y'', ''%Y-%m-%d'']"

fun in_range_loop :: "strptime_fn \<Rightarrow> string list \<Rightarrow> string \<Rightarrow> pydate \<Rightarrow> pydate \<Rightarrow> bool" where
  "in_range_loop strptime [] date_str start_d end_d = True"
| "in_range_loop strptime (fmt # fmts) date_str start_d end_d =
     (case strptime (strip date_str) fmt of
        Some d \<Rightarrow> date_le start_d d \<and> date_le d end_d
      | None \<Rightarrow> in_range_loop strptime fmts date_str start_d end_d)"

definition in_range :: "strptime_fn \<Rightarrow> string \<Rightarrow> pydate \<Rightarrow> pydate \<Rightarrow> bool" where
  "in_range strptime date_str start_d end_d =
     in_range_loop strptime date_formats date_str start_d end_d"

section \<open>Pages, cards and reviews\<close>

subsection \<open>The record model\<close>

text \<open>
  \<^verbatim>\<open>Review\<close> (lines 12 to 20). The type \<open>'f\<close> is the type of Python floats; the
  program only stores them, and writes \<^verbatim>\<open>0.0\<close> as \<open>0\<close>.
\<close>

record 'f Review =
  title :: string
  date :: string
  rating :: 'f
  reviewer_name :: string
  review_text :: string
  source :: string
  company :: string

text \<open>
  What the program observes of an HTML element: its text with \<^verbatim>\<open>get_text(strip=True)\<close>,
  its text with \<^verbatim>\<open>get_text(" ", strip=True)\<close>, and its attributes. A review card is
  the result of the five element lookups the extractors make in it; \<open>None\<close> is a
  lookup that finds nothing.
\<close>

record element =
  text_strip :: string
  text_sp_strip :: string
  attrs :: "(string \<times> string) list"

record card =
  title_el :: "element option"
  date_el :: "element option"
  rating_el :: "element option"
  user_el :: "element option"
  body_el :: "element option"

text \<open>
  \<^verbatim>\<open>requests.get(url, timeout=20)\<close> either raises (a timeout, a refused connection)
  or returns a response, of which the program reads the status code and the review
  cards its selector finds in the body.
\<close>

datatype fetch = RequestException | Response int "card list"

datatype error =
    ValueError string
  | AttributeError
  | TypeError
  | KeyError string
  | RequestError

type_synonym web = "string \<Rightarrow> fetch"

type_synonym 'f float_fn = "string \<Rightarrow> 'f option"

type_synonym 'f outcome = "string list \<times> (error + 'f Review list)"

subsection \<open>The pagination loop\<close>

text \<open>
  The three extractors run the same \<^verbatim>\<open>while True\<close> loop (lines 86 to 136, 163 to
  211, 225 to 260); they differ in the URL of a page and in the treatment of the
  cards of a page, which are the arguments \<open>url_of\<close> and \<open>per_page\<close>. The loop has no
  bound, so it is a partial function: \<open>None\<close> is a run that never returns. The
  result carries the URLs requested, in order, and either the exception that left
  the loop or the list \<^verbatim>\<open>all_reviews\<close>. The progress line printed before each request
  and the pause of one second after each page leave no other trace in the result.
\<close>

partial_function (option) paginate ::
  "web \<Rightarrow> (int \<Rightarrow> string) \<Rightarrow> (card list \<Rightarrow> 'f Review list \<Rightarrow> error + 'f Review list) \<Rightarrow>
   int \<Rightarrow> 'f Review list \<Rightarrow> string list \<Rightarrow> 'f outcome option" where
  "paginate web url_of per_page page all_reviews fetched =
     (let url = url_of page in
      case web url of
        RequestException \<Rightarrow> Some (fetched @ [url], Inl RequestError)
      | Response status_code cards \<Rightarrow>
          if status_code \<noteq> 200 then Some (fetched @ [url], Inr all_reviews)
          else if cards = [] then Some (fetched @ [url], Inr all_reviews)
          else (case per_page cards all_reviews of
                  Inl e \<Rightarrow> Some (fetched @ [url], Inl e)
                | Inr all_reviews' \<Rightarrow>
                    paginate web url_of per_page (page + 1) all_reviews' (fetched @ [url])))"

declare paginate.simps [code]

subsection \<open>G2\<close>

definition build_g2_url :: "string \<Rightarrow> int \<Rightarrow> string" where
  "build_g2_url product_slug page =
     ''https://www.g2.com/products/'' @ product_slug @ ''/reviews?page='' @ str_int page"

definition g2_slug_map :: "(string \<times> string) list" where
  "g2_slug_map = [(''pulse'', ''pulse'')]"

text \<open>Lines 100 to 118 and 124 to 132: the fields of one card.\<close>

definition g2_extract :: "('f::zero) float_fn \<Rightarrow> string \<Rightarrow> card \<Rightarrow> 'f Review" where
  "g2_extract pyfloat company_arg c =
     (let title_v = (case title_el c of Some e \<Rightarrow> text_strip e | None \<Rightarrow> []);
          date_txt = (case date_el c of Some e \<Rightarrow> text_strip e | None \<Rightarrow> []);
          rating_v =
            (case rating_el c of
               None \<Rightarrow> 0
             | Some e \<Rightarrow>
                 (case map_of (attrs e) ''content'' of
                    None \<Rightarrow> 0
                  | Some v \<Rightarrow>
                      if v = [] then 0
                      else (case pyfloat v of Some r \<Rightarrow> r | None \<Rightarrow> 0)));
          reviewer = (case user_el c of Some e \<Rightarrow> text_strip e | None \<Rightarrow> []);
          body = (case body_el c of Some e \<Rightarrow> text_sp_strip e | None \<Rightarrow> [])
      in \<lparr>title = title_v, date = date_txt, rating = rating_v, reviewer_name = reviewer,
          review_text = body, source = ''g2'', company = company_arg\<rparr>)"

text \<open>Lines 99 to 133: the loop over the cards of one page.\<close>

fun g2_cards ::
  "strptime_fn \<Rightarrow> ('f::zero) float_fn \<Rightarrow> string \<Rightarrow> pydate \<Rightarrow> pydate \<Rightarrow>
   card list \<Rightarrow> 'f Review list \<Rightarrow> 'f Review list" where
  "g2_cards strptime pyfloat company_arg start_d end_d [] all_reviews = all_reviews"
| "g2_cards strptime pyfloat company_arg start_d end_d (c # cards) all_reviews =
     (let r = g2_extract pyfloat company_arg c in
      if \<not> in_range strptime (date r) start_d end_d
      then g2_cards strptime pyfloat company_arg start_d end_d cards all_reviews
      else g2_cards strptime pyfloat company_arg start_d end_d cards (all_reviews @ [r]))"

definition scrape_g2 ::
  "strptime_fn \<Rightarrow> ('f::zero) float_fn \<Rightarrow> web \<Rightarrow> string \<Rightarrow> pydate \<Rightarrow> pydate \<Rightarrow> 'f outcome option" where
  "scrape_g2 strptime pyfloat web company_arg start_d end_d =
     (let key = lower company_arg in
      case map_of g2_slug_map key of
        None \<Rightarrow>
          Some ([], Inl (ValueError (''No G2 slug configured for '' @ [CHR 0x27] @ company_arg
                  @ [CHR 0x27] @ ''. Update slug_map in scrape_g2().'')))
      | Some slug \<Rightarrow>
          paginate web (build_g2_url slug)
            (\<lambda>cards all_reviews.
               Inr (g2_cards strptime pyfloat company_arg start_d end_d cards all_reviews))
            1 [] [])"

subsection \<open>Capterra\<close>

definition build_capterra_url :: "string \<Rightarrow> int \<Rightarrow> string" where
  "build_capterra_url product_path page =
     (let base = ''https://www.capterra.com/p/'' @ product_path @ ''/reviews/''
      in if page = 1 then base else base @ ''?page='' @ str_int page)"

definition capterra_slug_map :: "(string \<times> string) list" where
  "capterra_slug_map = [(''pulse'', ''12345/Pulse'')]"

definition capterra_extract :: "('f::zero) float_fn \<Rightarrow> string \<Rightarrow> card \<Rightarrow> 'f Review" where
  "capterra_extract pyfloat company_arg c =
     (let title_v = (case title_el c of Some e \<Rightarrow> text_strip e | None \<Rightarrow> []);
          date_txt = (case date_el c of Some e \<Rightarrow> text_strip e | None \<Rightarrow> []);
          rating_v =
            (case rating_el c of
               None \<Rightarrow> 0
             | Some e \<Rightarrow> (case pyfloat (text_strip e) of Some r \<Rightarrow> r | None \<Rightarrow> 0));
          reviewer = (case user_el c of Some e \<Rightarrow> text_strip e | None \<Rightarrow> []);
          body = (case body_el c of Some e \<Rightarrow> text_sp_strip e | None \<Rightarrow> [])
      in \<lparr>title = title_v, date = date_txt, rating = rating_v, reviewer_name = reviewer,
          review_text = body, source = ''capterra'', company = company_arg\<rparr>)"

fun capterra_cards ::
  "strptime_fn \<Rightarrow> ('f::zero) float_fn \<Rightarrow> string \<Rightarrow> pydate \<Rightarrow> pydate \<Rightarrow>
   card list \<Rightarrow> 'f Review list \<Rightarrow> 'f Review list" where
  "capterra_cards strptime pyfloat company_arg start_d end_d [] all_reviews = all_reviews"
| "capterra_cards strptime pyfloat company_arg start_d end_d (c # cards) all_reviews =
     (let r = capterra_extract pyfloat company_arg c in
      if \<not> in_range strptime (date r) start_d end_d
      then capterra_cards strptime pyfloat company_arg start_d end_d cards all_reviews
      else capterra_cards strptime pyfloat company_arg start_d end_d cards (all_reviews @ [r]))"

definition scrape_capterra ::
  "strptime_fn \<Rightarrow> ('f::zero) float_fn \<Rightarrow> web \<Rightarrow> string \<Rightarrow> pydate \<Rightarrow> pydate \<Rightarrow> 'f outcome option" where
  "scrape_capterra strptime pyfloat web company_arg start_d end_d =
     (let key = lower company_arg in
      case map_of capterra_slug_map key of
        None \<Rightarrow>
          Some ([], Inl (ValueError (''No Capterra path configured for '' @ [CHR 0x27]
                  @ company_arg @ [CHR 0x27] @ ''. Update slug_map in scrape_capterra().'')))
      | Some path \<Rightarrow>
          paginate web (build_capterra_url path)
            (\<lambda>cards all_reviews.
               Inr (capterra_cards strptime pyfloat company_arg start_d end_d cards all_reviews))
            1 [] [])"

subsection \<open>The third, generic source\<close>

text \<open>
  Lines 238 to 242 call \<^verbatim>\<open>get_text\<close> and index the attribute on whatever the lookup
  returned: on \<^verbatim>\<open>None\<close> the first raises \<^verbatim>\<open>AttributeError\<close> and the second
  \<^verbatim>\<open>TypeError\<close>; a missing attribute is a \<^verbatim>\<open>KeyError\<close>, and \<^verbatim>\<open>float\<close> raises
  \<^verbatim>\<open>ValueError\<close>. The five lookups run in this order, before the date filter.
\<close>

definition saas_url :: "string \<Rightarrow> int \<Rightarrow> string" where
  "saas_url company_arg page =
     (let base_url = ''https://example-saas-reviews.com/'' @ lower company_arg @ ''/reviews?page=''
      in base_url @ str_int page)"

definition saas_extract :: "'f float_fn \<Rightarrow> string \<Rightarrow> card \<Rightarrow> error + 'f Review" where
  "saas_extract pyfloat company_arg c =
     (case title_el c of
        None \<Rightarrow> Inl AttributeError
      | Some t \<Rightarrow>
     (case date_el c of
        None \<Rightarrow> Inl AttributeError
      | Some d \<Rightarrow>
     (case rating_el c of
        None \<Rightarrow> Inl TypeError
      | Some re \<Rightarrow>
     (case map_of (attrs re) ''data-score'' of
        None \<Rightarrow> Inl (KeyError ''data-score'')
      | Some v \<Rightarrow>
     (case pyfloat v of
        None \<Rightarrow> Inl (ValueError (''could not convert string to float: '' @ v))
      | Some rating_v \<Rightarrow>
     (case user_el c of
        None \<Rightarrow> Inl AttributeError
      | Some u \<Rightarrow>
     (case body_el c of
        None \<Rightarrow> Inl AttributeError
      | Some b \<Rightarrow>
          Inr \<lparr>title = text_strip t, date = text_strip d, rating = rating_v,
               reviewer_name = text_strip u, review_text = text_sp_strip b,
               source = ''saas'', company = company_arg\<rparr>)))))))"

fun saas_cards ::
  "strptime_fn \<Rightarrow> 'f float_fn \<Rightarrow> string \<Rightarrow> pydate \<Rightarrow> pydate \<Rightarrow>
   card list \<Rightarrow> 'f Review list \<Rightarrow> error + 'f Review list" where
  "saas_cards strptime pyfloat company_arg start_d end_d [] all_reviews = Inr all_reviews"
| "saas_cards strptime pyfloat company_arg start_d end_d (c # cards) all_reviews =
     (case saas_extract pyfloat company_arg c of
        Inl e \<Rightarrow> Inl e
      | Inr r \<Rightarrow>
          if \<not> in_range strptime (date r) start_d end_d
          then saas_cards strptime pyfloat company_arg start_d end_d cards all_reviews
          else saas_cards strptime pyfloat company_arg start_d end_d cards (all_reviews @ [r]))"

definition scrape_saas_example ::
  "strptime_fn \<Rightarrow> 'f float_fn \<Rightarrow> web \<Rightarrow> string \<Rightarrow> pydate \<Rightarrow> pydate \<Rightarrow> 'f outcome option" where
  "scrape_saas_example strptime pyfloat web company_arg start_d end_d =
     paginate web (saas_url company_arg)
       (saas_cards strptime pyfloat company_arg start_d end_d) 1 [] []"

section \<open>The output writer and the entry point\<close>

text \<open>
  \<^verbatim>\<open>write_json\<close> (lines 57 to 62). \<^verbatim>\<open>asdict\<close> turns a \<^verbatim>\<open>Review\<close> into a dictionary
  with the fields in the order of their declaration; the argument \<open>json_dump\<close> stands
  for the text \<^verbatim>\<open>json.dump(data, f, ensure_ascii=False, indent=2)\<close> writes. The result
  is the file written and the line printed.
\<close>

datatype 'f json =
    JString string
  | JNumber 'f
  | JArray "'f json list"
  | JObject "(string \<times> 'f json) list"

definition asdict :: "'f Review \<Rightarrow> 'f json" where
  "asdict r =
     JObject [(''title'', JString (title r)), (''date'', JString (date r)),
              (''rating'', JNumber (rating r)), (''reviewer_name'', JString (reviewer_name r)),
              (''review_text'', JString (review_text r)), (''source'', JString (source r)),
              (''company'', JString (company r))]"

record written =
  file_name :: string
  file_text :: string
  printed :: string

definition write_json :: "('f json \<Rightarrow> string) \<Rightarrow> string \<Rightarrow> string \<Rightarrow> 'f Review list \<Rightarrow> written" where
  "write_json json_dump company_arg source_arg reviews =
     (let data = map asdict reviews;
          fname = replace_char (CHR '' '') (CHR ''_'') (lower company_arg)
                    @ ''_'' @ source_arg @ ''_reviews.json''
      in \<lparr>file_name = fname, file_text = json_dump (JArray data),
          printed = ''Saved '' @ str_int (int (length reviews)) @ '' reviews to '' @ fname\<rparr>)"

text \<open>
  \<^verbatim>\<open>main\<close> (lines 265 to 275), from the tuple \<^verbatim>\<open>parse_cli_args\<close> returns. An
  exception of the extractor is not caught: the run ends with it and nothing is
  written.
\<close>

definition main ::
  "strptime_fn \<Rightarrow> ('f::zero) float_fn \<Rightarrow> ('f json \<Rightarrow> string) \<Rightarrow> web \<Rightarrow>
   string \<times> pydate \<times> pydate \<times> string \<Rightarrow> (string list \<times> (error + written)) option" where
  "main strptime pyfloat json_dump web args =
     (case args of (company_arg, start_d, end_d, source_arg) \<Rightarrow>
        (case (if source_arg = ''g2''
               then scrape_g2 strptime pyfloat web company_arg start_d end_d
               else if source_arg = ''capterra''
               then scrape_capterra strptime pyfloat web company_arg start_d end_d
               else scrape_saas_example strptime pyfloat web company_arg start_d end_d) of
           None \<Rightarrow> None
         | Some (fetched, Inl e) \<Rightarrow> Some (fetched, Inl e)
         | Some (fetched, Inr reviews) \<Rightarrow>
             Some (fetched, Inr (write_json json_dump company_arg source_arg reviews))))"

section \<open>Reference behaviour of the library calls, for concrete runs\<close>

text \<open>
  To run the program on concrete inputs the library arguments need values. The
  following reads the three formats the way \<^verbatim>\<open>datetime.strptime\<close> does in the C
  locale: the format becomes a regular expression (month names without regard to
  case, a blank of the format as one or more blanks, \<^verbatim>\<open>%d\<close> as
  \<^verbatim>\<open>3[0-1]|[1-2]\d|0[1-9]|[1-9]| [1-9]\<close>, \<^verbatim>\<open>%m\<close> as \<^verbatim>\<open>1[0-2]|0[1-9]|[1-9]\<close>, \<^verbatim>\<open>%Y\<close> as
  four digits), the first match in the order of the alternatives is taken, text left
  over after it is an error, and so is a day the month does not have or the year 0.
  A parser here returns every way to match, in the order a backtracking matcher
  tries them.
\<close>

definition full_months :: "string list" where
  "full_months = [''january'', ''february'', ''march'', ''april'', ''may'', ''june'', ''july'',
                  ''august'', ''september'', ''october'', ''november'', ''december'']"

definition abbr_months :: "string list" where
  "abbr_months = [''jan'', ''feb'', ''mar'', ''apr'', ''may'', ''jun'', ''jul'', ''aug'', ''sep'',
                  ''oct'', ''nov'', ''dec'']"

fun p_name :: "nat \<Rightarrow> string list \<Rightarrow> string \<Rightarrow> (nat \<times> string) list" where
  "p_name i [] s = []"
| "p_name i (n # ns) s =
     (if lower (take (length n) s) = n then [(i, drop (length n) s)] else [])
     @ p_name (Suc i) ns s"

definition p_blanks :: "string \<Rightarrow> string list" where
  "p_blanks s = map (\<lambda>k. drop k s) (rev [1..<Suc (length (takeWhile isspace s))])"

definition p_lit :: "char \<Rightarrow> string \<Rightarrow> string list" where
  "p_lit c s = (case s of [] \<Rightarrow> [] | x # r \<Rightarrow> if x = c then [r] else [])"

definition digit_val :: "char \<Rightarrow> nat option" where
  "digit_val c = map_of (zip ''0123456789'' [0..<10]) c"

definition p_day :: "string \<Rightarrow> (nat \<times> string) list" where
  "p_day s =
     (case s of
        a # b # r \<Rightarrow>
          (if a = CHR ''3'' \<and> b \<in> set ''01'' then [(30 + the (digit_val b), r)] else [])
          @ (if a \<in> set ''12'' \<and> digit_val b \<noteq> None
             then [(10 * the (digit_val a) + the (digit_val b), r)] else [])
          @ (if a = CHR ''0'' \<and> b \<in> set ''123456789'' then [(the (digit_val b), r)] else [])
      | _ \<Rightarrow> [])
     @ (case s of a # r \<Rightarrow> if a \<in> set ''123456789'' then [(the (digit_val a), r)] else []
        | [] \<Rightarrow> [])
     @ (case s of
          a # b # r \<Rightarrow>
            if a = CHR '' '' \<and> b \<in> set ''123456789'' then [(the (digit_val b), r)] else []
        | _ \<Rightarrow> [])"

definition p_month :: "string \<Rightarrow> (nat \<times> string) list" where
  "p_month s =
     (case s of
        a # b # r \<Rightarrow>
          (if a = CHR ''1'' \<and> b \<in> set ''012'' then [(10 + the (digit_val b), r)] else [])
          @ (if a = CHR ''0'' \<and> b \<in> set ''123456789'' then [(the (digit_val b), r)] else [])
      | _ \<Rightarrow> [])
     @ (case s of a # r \<Rightarrow> if a \<in> set ''123456789'' then [(the (digit_val a), r)] else []
        | [] \<Rightarrow> [])"

definition p_year :: "string \<Rightarrow> (nat \<times> string) list" where
  "p_year s =
     (case s of
        a # b # c # d # r \<Rightarrow>
          (case (digit_val a, digit_val b, digit_val c, digit_val d) of
             (Some x, Some y, Some z, Some w) \<Rightarrow> [(1000 * x + 100 * y + 10 * z + w, r)]
           | _ \<Rightarrow> [])
      | _ \<Rightarrow> [])"

definition days_in_month :: "nat \<Rightarrow> nat \<Rightarrow> nat" where
  "days_in_month y m =
     (if m = 2 then (if y mod 4 = 0 \<and> (y mod 100 \<noteq> 0 \<or> y mod 400 = 0) then 29 else 28)
      else if m \<in> set [4, 6, 9, 11] then 30 else 31)"

definition finish_date :: "((nat \<times> nat \<times> nat) \<times> string) list \<Rightarrow> pydate option" where
  "finish_date ms =
     (case ms of
        [] \<Rightarrow> None
      | ((y, m, d), rest) # _ \<Rightarrow>
          if rest \<noteq> [] then None
          else if 1 \<le> y \<and> 1 \<le> d \<and> d \<le> days_in_month y m then Some (Date y m d)
          else None)"

definition parse_named :: "string list \<Rightarrow> string \<Rightarrow> ((nat \<times> nat \<times> nat) \<times> string) list" where
  "parse_named names s =
     [((y, m, d), r6).
        (m, r1) \<leftarrow> p_name 1 names s, r2 \<leftarrow> p_blanks r1, (d, r3) \<leftarrow> p_day r2,
        r4 \<leftarrow> p_lit (CHR '','') r3, r5 \<leftarrow> p_blanks r4, (y, r6) \<leftarrow> p_year r5]"

definition parse_iso :: "string \<Rightarrow> ((nat \<times> nat \<times> nat) \<times> string) list" where
  "parse_iso s =
     [((y, m, d), r5).
        (y, r1) \<leftarrow> p_year s, r2 \<leftarrow> p_lit (CHR ''-'') r1, (m, r3) \<leftarrow> p_month r2,
        r4 \<leftarrow> p_lit (CHR ''-'') r3, (d, r5) \<leftarrow> p_day r4]"

definition strptime_c :: strptime_fn where
  "strptime_c s fmt =
     (if fmt = ''%B %d, %Y'' then finish_date (parse_named full_months s)
      else if fmt = ''%b %d, %Y'' then finish_date (parse_named abbr_months s)
      else if fmt = ''%Y-%m-%d'' then finish_date (parse_iso s)
      else None)"

text \<open>
  A reader of plain decimal numerals (digits, with an optional fraction) into the
  rationals, for the ratings of concrete cards. Python's \<^verbatim>\<open>float\<close> accepts more.
\<close>

fun digits_val :: "string \<Rightarrow> nat \<Rightarrow> nat option" where
  "digits_val [] acc = Some acc"
| "digits_val (c # cs) acc =
     (case digit_val c of None \<Rightarrow> None | Some d \<Rightarrow> digits_val cs (10 * acc + d))"

definition float_dec :: "rat float_fn" where
  "float_dec s =
     (let ip = takeWhile (\<lambda>c. c \<noteq> CHR ''.'') s; fp = drop (Suc (length ip)) s in
      if ip = [] \<and> fp = [] then None
      else (case (digits_val ip 0, digits_val fp 0) of
              (Some i, Some f) \<Rightarrow> Some (of_nat i + of_nat f / of_nat (10 ^ length fp))
            | _ \<Rightarrow> None))"

text \<open>
  A writer and a reader of JSON text, for concrete runs of the output writer. The
  writer lays the text out as \<^verbatim>\<open>json.dump\<close> does with \<^verbatim>\<open>indent=2\<close>; it escapes the
  quote, the backslash and the line feed, and prints a number in decimal notation.
  The reader takes a bound on the number of values it may read.
\<close>

definition esc_char :: "char \<Rightarrow> string" where
  "esc_char c =
     (if c = CHR 0x22 then [CHR 0x5C, CHR 0x22]
      else if c = CHR 0x5C then [CHR 0x5C, CHR 0x5C]
      else if c = CHR 0x0A then [CHR 0x5C, CHR ''n'']
      else [c])"

definition quote :: "string \<Rightarrow> string" where
  "quote s = CHR 0x22 # concat (map esc_char s) @ [CHR 0x22]"

fun frac_digits :: "nat \<Rightarrow> rat \<Rightarrow> string" where
  "frac_digits 0 f = []"
| "frac_digits (Suc n) f =
     (if f = 0 then []
      else digit_char (nat \<lfloor>f * 10\<rfloor>) # frac_digits n (f * 10 - of_int \<lfloor>f * 10\<rfloor>))"

definition show_rat :: "rat \<Rightarrow> string" where
  "show_rat r =
     (let a = \<bar>r\<bar>; f = a - of_int \<lfloor>a\<rfloor> in
      (if r < 0 then ''-'' else []) @ str_int \<lfloor>a\<rfloor> @ ''.''
      @ (if f = 0 then ''0'' else frac_digits 17 f))"

fun join :: "string \<Rightarrow> string list \<Rightarrow> string" where
  "join sep [] = []"
| "join sep [x] = x"
| "join sep (x # y # ys) = x @ sep @ join sep (y # ys)"

fun json_text :: "nat \<Rightarrow> rat json \<Rightarrow> string" where
  "json_text lvl (JString s) = quote s"
| "json_text lvl (JNumber r) = show_rat r"
| "json_text lvl (JArray xs) =
     (if xs = [] then ''[]''
      else ''['' @ [CHR 0x0A]
           @ join ('','' @ [CHR 0x0A])
               (map (\<lambda>x. replicate (lvl + 2) (CHR '' '') @ json_text (lvl + 2) x) xs)
           @ [CHR 0x0A] @ replicate lvl (CHR '' '') @ '']'')"
| "json_text lvl (JObject kvs) =
     (if kvs = [] then ''{}''
      else ''{'' @ [CHR 0x0A]
           @ join ('','' @ [CHR 0x0A])
               (map (\<lambda>kv. replicate (lvl + 2) (CHR '' '') @ quote (fst kv) @ '': ''
                           @ json_text (lvl + 2) (snd kv)) kvs)
           @ [CHR 0x0A] @ replicate lvl (CHR '' '') @ ''}'')"

definition json_dump_c :: "rat json \<Rightarrow> string" where
  "json_dump_c v = json_text 0 v"

fun read_string :: "string \<Rightarrow> string \<Rightarrow> (string \<times> string) option" where
  "read_string acc [] = None"
| "read_string acc [c] = (if c = CHR 0x22 then Some (acc, []) else None)"
| "read_string acc (c # d # ds) =
     (if c = CHR 0x22 then Some (acc, d # ds)
      else if c = CHR 0x5C then
        (if d = CHR ''n'' then read_string (acc @ [CHR 0x0A]) ds
         else if d = CHR 0x22 \<or> d = CHR 0x5C then read_string (acc @ [d]) ds
         else None)
      else read_string (acc @ [c]) (d # ds))"

definition read_number :: "string \<Rightarrow> (rat \<times> string) option" where
  "read_number s =
     (let neg = (s \<noteq> [] \<and> hd s = CHR ''-'');
          t = (if neg then tl s else s);
          num = takeWhile (\<lambda>c. c \<in> set ''0123456789.'') t
      in case float_dec num of
           None \<Rightarrow> None
         | Some r \<Rightarrow> Some (if neg then - r else r, drop (length num) t))"

fun read_value :: "nat \<Rightarrow> string \<Rightarrow> (rat json \<times> string) option"
  and read_elems :: "nat \<Rightarrow> string \<Rightarrow> (rat json list \<times> string) option"
  and read_members :: "nat \<Rightarrow> string \<Rightarrow> ((string \<times> rat json) list \<times> string) option" where
  "read_value 0 s = None"
| "read_value (Suc n) s =
     (case dropWhile isspace s of
        [] \<Rightarrow> None
      | c # cs \<Rightarrow>
          if c = CHR 0x22 then map_option (\<lambda>(t, r). (JString t, r)) (read_string [] cs)
          else if c = CHR ''['' then
            (case dropWhile isspace cs of
               [] \<Rightarrow> None
             | d # ds \<Rightarrow>
                 if d = CHR '']'' then Some (JArray [], ds)
                 else map_option (\<lambda>(xs, r). (JArray xs, r)) (read_elems n cs))
          else if c = CHR ''{'' then
            (case dropWhile isspace cs of
               [] \<Rightarrow> None
             | d # ds \<Rightarrow>
                 if d = CHR ''}'' then Some (JObject [], ds)
                 else map_option (\<lambda>(kvs, r). (JObject kvs, r)) (read_members n cs))
          else map_option (\<lambda>(x, r). (JNumber x, r)) (read_number (c # cs)))"
| "read_elems 0 s = None"
| "read_elems (Suc n) s =
     (case read_value n s of
        None \<Rightarrow> None
      | Some (v, r) \<Rightarrow>
          (case dropWhile isspace r of
             [] \<Rightarrow> None
           | c # cs \<Rightarrow>
               if c = CHR '','' then map_option (\<lambda>(vs, r'). (v # vs, r')) (read_elems n cs)
               else if c = CHR '']'' then Some ([v], cs)
               else None))"
| "read_members 0 s = None"
| "read_members (Suc n) s =
     (case dropWhile isspace s of
        [] \<Rightarrow> None
      | q # qs \<Rightarrow>
          if q \<noteq> CHR 0x22 then None
          else (case read_string [] qs of
                  None \<Rightarrow> None
                | Some (k, r) \<Rightarrow>
                    (case dropWhile isspace r of
                       [] \<Rightarrow> None
                     | c # cs \<Rightarrow>
                         if c \<noteq> CHR '':'' then None
                         else (case read_value n cs of
                                 None \<Rightarrow> None
                               | Some (v, r') \<Rightarrow>
                                   (case dropWhile isspace r' of
                                      [] \<Rightarrow> None
                                    | e # es \<Rightarrow>
                                        if e = CHR '','' then
                                          map_option (\<lambda>(kvs, r''). ((k, v) # kvs, r''))
                                            (read_members n es)
                                        else if e = CHR ''}'' then Some ([(k, v)], es)
                                        else None)))))"


section \<open>Concrete cards and pages for the examples\<close>

definition elem :: "string \<Rightarrow> (string \<times> string) list \<Rightarrow> element" where
  "elem t as = \<lparr>text_strip = t, text_sp_strip = t, attrs = as\<rparr>"

definition card_no_rating :: card where
  "card_no_rating =
     \<lparr>title_el = Some (elem ''Great tool'' []), date_el = Some (elem ''January 5, 2024'' []),
      rating_el = None, user_el = Some (elem ''Ada L.'' []),
      body_el = Some (elem ''Works well.'' [])\<rparr>"

definition card_bad_rating :: card where
  "card_bad_rating =
     \<lparr>title_el = Some (elem ''Slow'' []), date_el = Some (elem ''2024-03-03'' []),
      rating_el = Some (elem ''n/a'' [(''content'', ''n/a'')]), user_el = None,
      body_el = Some (elem ''Too slow.'' [])\<rparr>"

definition card_old :: card where
  "card_old =
     \<lparr>title_el = Some (elem ''Was fine'' []), date_el = Some (elem ''March 3, 2023'' []),
      rating_el = Some (elem ''4.5'' [(''content'', ''4.5''), (''data-score'', ''4.5'')]),
      user_el = Some (elem ''Bo K.'' []), body_el = Some (elem ''It was fine.'' [])\<rparr>"

definition card_full :: card where
  "card_full =
     \<lparr>title_el = Some (elem ''Solid'' []), date_el = Some (elem ''Feb 29, 2024'' []),
      rating_el = Some (elem ''4'' [(''content'', ''4''), (''data-score'', ''4'')]),
      user_el = Some (elem ''Cy M.'' []), body_el = Some (elem ''Solid product.'' [])\<rparr>"

text \<open>
  A web of a few pages: two pages of G2 reviews and one page each of Capterra and of
  the generic source; every other URL answers with status 503.
\<close>

definition example_web :: web where
  "example_web url =
     (if url = ''https://www.g2.com/products/pulse/reviews?page=1''
      then Response 200 [card_no_rating, card_old]
      else if url = ''https://www.g2.com/products/pulse/reviews?page=2''
      then Response 200 [card_bad_rating]
      else if url = ''https://www.capterra.com/p/12345/Pulse/reviews/''
      then Response 200 [card_full, card_old]
      else if url = ''https://example-saas-reviews.com/pulse/reviews?page=1''
      then Response 200 [card_old, card_full]
      else Response 503 [])"

text \<open>
  A web whose generic-source page has a card without a rating element, and a web
  that answers every URL with a page of one card.
\<close>

definition broken_web :: web where
  "broken_web url =
     (if url = ''https://example-saas-reviews.com/pulse/reviews?page=1''
      then Response 200 [card_full, card_no_rating]
      else Response 503 [])"

definition endless_web :: web where
  "endless_web url = Response 200 [card_full]"

definition refusing_web :: web where
  "refusing_web url = RequestException"


section \<open>Vocabulary for the page sequences of a run\<close>

text \<open>
  A page that lets the loop go on (status 200 and at least one card), a page that
  ends the loop normally (another status, or no card), and the cards of a page.
\<close>

definition page_ok :: "fetch \<Rightarrow> bool" where
  "page_ok f = (case f of Response st cs \<Rightarrow> st = 200 \<and> cs \<noteq> [] | RequestException \<Rightarrow> False)"

definition page_stops :: "fetch \<Rightarrow> bool" where
  "page_stops f = (case f of Response st cs \<Rightarrow> st \<noteq> 200 \<or> cs = [] | RequestException \<Rightarrow> False)"

definition cards_of :: "fetch \<Rightarrow> card list" where
  "cards_of f = (case f of Response st cs \<Rightarrow> cs | RequestException \<Rightarrow> [])"

text \<open>The reviews of a list of cards that pass the date filter, in the order of the cards.\<close>

definition g2_kept ::
  "strptime_fn \<Rightarrow> ('f::zero) float_fn \<Rightarrow> string \<Rightarrow> pydate \<Rightarrow> pydate \<Rightarrow> card list \<Rightarrow> 'f Review list" where
  "g2_kept strptime pyfloat company_arg start_d end_d cs =
     filter (\<lambda>r. in_range strptime (date r) start_d end_d) (map (g2_extract pyfloat company_arg) cs)"

definition capterra_kept ::
  "strptime_fn \<Rightarrow> ('f::zero) float_fn \<Rightarrow> string \<Rightarrow> pydate \<Rightarrow> pydate \<Rightarrow> card list \<Rightarrow> 'f Review list" where
  "capterra_kept strptime pyfloat company_arg start_d end_d cs =
     filter (\<lambda>r. in_range strptime (date r) start_d end_d)
       (map (capterra_extract pyfloat company_arg) cs)"

definition saas_kept ::
  "strptime_fn \<Rightarrow> 'f float_fn \<Rightarrow> string \<Rightarrow> pydate \<Rightarrow> pydate \<Rightarrow> card list \<Rightarrow> 'f Review list" where
  "saas_kept strptime pyfloat company_arg start_d end_d cs =
     concat (map (\<lambda>c. case saas_extract pyfloat company_arg c of
                         Inl e \<Rightarrow> []
                       | Inr r \<Rightarrow> if in_range strptime (date r) start_d end_d then [r] else []) cs)"

definition saas_complete :: "'f float_fn \<Rightarrow> string \<Rightarrow> card \<Rightarrow> bool" where
  "saas_complete pyfloat company_arg c =
     (case saas_extract pyfloat company_arg c of Inl e \<Rightarrow> False | Inr r \<Rightarrow> True)"

section \<open>Properties of the date filter\<close>



























section \<open>Properties of the extractors\<close>

lemma g2_cards_filter:
  "g2_cards sp pf co a b cs acc =
     acc @ filter (\<lambda>r. in_range sp (date r) a b) (map (g2_extract pf co) cs)"
  by (induction cs arbitrary: acc) (simp_all add: Let_def)

lemma capterra_cards_filter:
  "capterra_cards sp pf co a b cs acc =
     acc @ filter (\<lambda>r. in_range sp (date r) a b) (map (capterra_extract pf co) cs)"
  by (induction cs arbitrary: acc) (simp_all add: Let_def)

text \<open>
  Claim C5. In the G2 and in the Capterra extractor, a card whose rating element is
  absent, or whose rating content \<^verbatim>\<open>float\<close> rejects, gives a review with rating \<open>0\<close>
  and every other field read from the card as usual; the loop over the cards goes on
  with the next card, the review being appended when its date passes the filter.
\<close>

theorem rating_defaults_to_zero:
  "((rating_el c = None
      \<or> (\<exists>e v. rating_el c = Some e \<and> map_of (attrs e) ''content'' = Some v \<and> pyfloat v = None))
     \<longrightarrow> g2_extract pyfloat company_arg c =
           \<lparr>title = (case title_el c of Some e \<Rightarrow> text_strip e | None \<Rightarrow> []),
            date = (case date_el c of Some e \<Rightarrow> text_strip e | None \<Rightarrow> []),
            rating = 0,
            reviewer_name = (case user_el c of Some e \<Rightarrow> text_strip e | None \<Rightarrow> []),
            review_text = (case body_el c of Some e \<Rightarrow> text_sp_strip e | None \<Rightarrow> []),
            source = ''g2'', company = company_arg\<rparr>
         \<and> g2_cards strptime pyfloat company_arg start_d end_d (c # cards) all_reviews =
           g2_cards strptime pyfloat company_arg start_d end_d cards
             (if in_range strptime (case date_el c of Some e \<Rightarrow> text_strip e | None \<Rightarrow> [])
                   start_d end_d
              then all_reviews @ [g2_extract pyfloat company_arg c] else all_reviews))
   \<and> ((rating_el c = None \<or> (\<exists>e. rating_el c = Some e \<and> pyfloat (text_strip e) = None))
     \<longrightarrow> capterra_extract pyfloat company_arg c =
           \<lparr>title = (case title_el c of Some e \<Rightarrow> text_strip e | None \<Rightarrow> []),
            date = (case date_el c of Some e \<Rightarrow> text_strip e | None \<Rightarrow> []),
            rating = 0,
            reviewer_name = (case user_el c of Some e \<Rightarrow> text_strip e | None \<Rightarrow> []),
            review_text = (case body_el c of Some e \<Rightarrow> text_sp_strip e | None \<Rightarrow> []),
            source = ''capterra'', company = company_arg\<rparr>
         \<and> capterra_cards strptime pyfloat company_arg start_d end_d (c # cards) all_reviews =
           capterra_cards strptime pyfloat company_arg start_d end_d cards
             (if in_range strptime (case date_el c of Some e \<Rightarrow> text_strip e | None \<Rightarrow> [])
                   start_d end_d
              then all_reviews @ [capterra_extract pyfloat company_arg c] else all_reviews))"
proof -
  have g: "g2_cards strptime pyfloat company_arg start_d end_d (c # cards) all_reviews =
           g2_cards strptime pyfloat company_arg start_d end_d cards
             (if in_range strptime (case date_el c of Some e \<Rightarrow> text_strip e | None \<Rightarrow> [])
                   start_d end_d
              then all_reviews @ [g2_extract pyfloat company_arg c] else all_reviews)"
    by (simp add: Let_def) (simp add: g2_extract_def Let_def)
  have k: "capterra_cards strptime pyfloat company_arg start_d end_d (c # cards) all_reviews =
           capterra_cards strptime pyfloat company_arg start_d end_d cards
             (if in_range strptime (case date_el c of Some e \<Rightarrow> text_strip e | None \<Rightarrow> [])
                   start_d end_d
              then all_reviews @ [capterra_extract pyfloat company_arg c] else all_reviews)"
    by (simp add: Let_def) (simp add: capterra_extract_def Let_def)
  show ?thesis
    unfolding g k
    by (auto simp add: g2_extract_def capterra_extract_def Let_def split: option.splits)
qed

theorem rating_defaults_to_zero_witness:
  "rating_el card_no_rating = None
   \<and> g2_extract float_dec ''Pulse'' card_no_rating =
       \<lparr>title = ''Great tool'', date = ''January 5, 2024'', rating = 0, reviewer_name = ''Ada L.'',
        review_text = ''Works well.'', source = ''g2'', company = ''Pulse''\<rparr>
   \<and> g2_cards strptime_c float_dec ''Pulse'' (Date 2024 1 1) (Date 2024 12 31)
        [card_no_rating] [] =
       [\<lparr>title = ''Great tool'', date = ''January 5, 2024'', rating = 0, reviewer_name = ''Ada L.'',
         review_text = ''Works well.'', source = ''g2'', company = ''Pulse''\<rparr>]
   \<and> float_dec ''n/a'' = None
   \<and> g2_extract float_dec ''Pulse'' card_bad_rating =
       \<lparr>title = ''Slow'', date = ''2024-03-03'', rating = 0, reviewer_name = [],
        review_text = ''Too slow.'', source = ''g2'', company = ''Pulse''\<rparr>
   \<and> capterra_extract float_dec ''Pulse'' card_bad_rating =
       \<lparr>title = ''Slow'', date = ''2024-03-03'', rating = 0, reviewer_name = [],
        review_text = ''Too slow.'', source = ''capterra'', company = ''Pulse''\<rparr>
   \<and> capterra_cards strptime_c float_dec ''Pulse'' (Date 2024 1 1) (Date 2024 12 31)
        [card_bad_rating] [] =
       [\<lparr>title = ''Slow'', date = ''2024-03-03'', rating = 0, reviewer_name = [],
         review_text = ''Too slow.'', source = ''capterra'', company = ''Pulse''\<rparr>]"
proof -
  have f: "float_dec ''n/a'' = None" by code_simp
  have h1: "rating_el card_no_rating = None" by (simp add: card_no_rating_def)
  have h2: "\<exists>e v. rating_el card_bad_rating = Some e \<and> map_of (attrs e) ''content'' = Some v
              \<and> float_dec v = None"
    using f by (simp add: card_bad_rating_def elem_def)
  have h3: "\<exists>e. rating_el card_bad_rating = Some e \<and> float_dec (text_strip e) = None"
    using f by (simp add: card_bad_rating_def elem_def)
  have r1: "in_range strptime_c ''January 5, 2024'' (Date 2024 1 1) (Date 2024 12 31)"
    by code_simp
  have r2: "in_range strptime_c ''2024-03-03'' (Date 2024 1 1) (Date 2024 12 31)"
    by code_simp
  note a = rating_defaults_to_zero [where c = card_no_rating and pyfloat = float_dec
      and company_arg = "''Pulse''" and strptime = strptime_c and start_d = "Date 2024 1 1"
      and end_d = "Date 2024 12 31" and cards = "[]" and all_reviews = "[]"]
  note b = rating_defaults_to_zero [where c = card_bad_rating and pyfloat = float_dec
      and company_arg = "''Pulse''" and strptime = strptime_c and start_d = "Date 2024 1 1"
      and end_d = "Date 2024 12 31" and cards = "[]" and all_reviews = "[]"]
  from a h1 have a1: "g2_extract float_dec ''Pulse'' card_no_rating =
       \<lparr>title = ''Great tool'', date = ''January 5, 2024'', rating = 0, reviewer_name = ''Ada L.'',
        review_text = ''Works well.'', source = ''g2'', company = ''Pulse''\<rparr>"
    by (simp add: card_no_rating_def elem_def)
  from a h1 r1 have a2: "g2_cards strptime_c float_dec ''Pulse'' (Date 2024 1 1) (Date 2024 12 31)
        [card_no_rating] [] = [g2_extract float_dec ''Pulse'' card_no_rating]"
    by (simp add: card_no_rating_def elem_def)
  from b h2 have b1: "g2_extract float_dec ''Pulse'' card_bad_rating =
       \<lparr>title = ''Slow'', date = ''2024-03-03'', rating = 0, reviewer_name = [],
        review_text = ''Too slow.'', source = ''g2'', company = ''Pulse''\<rparr>"
    by (simp add: card_bad_rating_def elem_def)
  from b h3 have b2: "capterra_extract float_dec ''Pulse'' card_bad_rating =
       \<lparr>title = ''Slow'', date = ''2024-03-03'', rating = 0, reviewer_name = [],
        review_text = ''Too slow.'', source = ''capterra'', company = ''Pulse''\<rparr>"
    by (simp add: card_bad_rating_def elem_def)
  from b h3 r2 have b3: "capterra_cards strptime_c float_dec ''Pulse'' (Date 2024 1 1)
        (Date 2024 12 31) [card_bad_rating] [] = [capterra_extract float_dec ''Pulse'' card_bad_rating]"
    by (simp add: card_bad_rating_def elem_def)
  show ?thesis using f h1 a1 a2 b1 b2 b3 by simp
qed

section \<open>Properties of the URL builders and of the output writer\<close>

text \<open>
  Claim C10. The Capterra builder returns the base URL, with no query string, for
  page 1 and appends \<^verbatim>\<open>?page=n\<close> for every page \<open>n > 1\<close>; the G2 builder and the
  URL of the generic source carry the page number for every page, page 1 included.
\<close>

theorem url_builders:
  "build_capterra_url product_path 1 = ''https://www.capterra.com/p/'' @ product_path @ ''/reviews/''
   \<and> (1 < n \<longrightarrow> build_capterra_url product_path n =
         ''https://www.capterra.com/p/'' @ product_path @ ''/reviews/'' @ ''?page='' @ str_int n)
   \<and> build_g2_url product_slug k =
         ''https://www.g2.com/products/'' @ product_slug @ ''/reviews?page='' @ str_int k
   \<and> build_g2_url product_slug 1 =
         ''https://www.g2.com/products/'' @ product_slug @ ''/reviews?page=1''
   \<and> saas_url company_arg k =
         ''https://example-saas-reviews.com/'' @ lower company_arg @ ''/reviews?page='' @ str_int k
   \<and> saas_url company_arg 1 =
         ''https://example-saas-reviews.com/'' @ lower company_arg @ ''/reviews?page=1''"
proof -
  have one: "str_int 1 = ''1''" by code_simp
  show ?thesis
    by (simp add: build_capterra_url_def build_g2_url_def saas_url_def one)
qed

theorem url_builders_witness:
  "build_capterra_url ''12345/Pulse'' 1 = ''https://www.capterra.com/p/12345/Pulse/reviews/''
   \<and> build_capterra_url ''12345/Pulse'' 2 = ''https://www.capterra.com/p/12345/Pulse/reviews/?page=2''
   \<and> build_g2_url ''pulse'' 1 = ''https://www.g2.com/products/pulse/reviews?page=1''
   \<and> build_g2_url ''pulse'' 12 = ''https://www.g2.com/products/pulse/reviews?page=12''
   \<and> saas_url ''Pulse'' 1 = ''https://example-saas-reviews.com/pulse/reviews?page=1''"
proof -
  have s: "str_int 2 = ''2''" "str_int 12 = ''12''" "lower ''Pulse'' = ''pulse''" by code_simp+
  show ?thesis
    using url_builders [of "''12345/Pulse''" 2 "''pulse''" 12 "''Pulse''"] s
    by simp
qed


section \<open>Properties of the pagination loop\<close>

text \<open>
  One turn of the loop, by the kind of page it meets; then any number of turns over
  pages that let it go on; and the fact that a run that returns has met a page that
  stops it or cards that raise.
\<close>

lemma paginate_stop:
  "page_stops (web (url_of page)) \<Longrightarrow>
   paginate web url_of per_page page acc fetched = Some (fetched @ [url_of page], Inr acc)"
  by (subst paginate.simps) (auto simp: page_stops_def Let_def split: fetch.splits)

lemma paginate_request_raises:
  "web (url_of page) = RequestException \<Longrightarrow>
   paginate web url_of per_page page acc fetched = Some (fetched @ [url_of page], Inl RequestError)"
  by (subst paginate.simps) simp

lemma paginate_cards_raise:
  "page_ok (web (url_of page)) \<Longrightarrow> per_page (cards_of (web (url_of page))) acc = Inl e \<Longrightarrow>
   paginate web url_of per_page page acc fetched = Some (fetched @ [url_of page], Inl e)"
  by (subst paginate.simps) (auto simp: page_ok_def cards_of_def Let_def split: fetch.splits)

lemma paginate_next:
  "page_ok (web (url_of page)) \<Longrightarrow> per_page (cards_of (web (url_of page))) acc = Inr acc' \<Longrightarrow>
   paginate web url_of per_page page acc fetched =
   paginate web url_of per_page (page + 1) acc' (fetched @ [url_of page])"
  by (subst paginate.simps) (auto simp: page_ok_def cards_of_def Let_def split: fetch.splits)

lemma paginate_unroll:
  assumes "\<forall>p. page \<le> p \<and> p < page + int n \<longrightarrow> page_ok (web (url_of p))"
    and "\<forall>p acc. page \<le> p \<and> p < page + int n \<longrightarrow>
           per_page (cards_of (web (url_of p))) acc = Inr (acc @ keep (cards_of (web (url_of p))))"
  shows "paginate web url_of per_page page acc fetched =
         paginate web url_of per_page (page + int n)
           (acc @ concat (map (\<lambda>p. keep (cards_of (web (url_of p)))) [page..page + int n - 1]))
           (fetched @ map url_of [page..page + int n - 1])"
  using assms
proof (induction n arbitrary: page acc fetched)
  case 0
  then show ?case by simp
next
  case (Suc n)
  have ok: "page_ok (web (url_of page))" using Suc.prems(1) by simp
  have pp: "per_page (cards_of (web (url_of page))) acc =
            Inr (acc @ keep (cards_of (web (url_of page))))"
    using Suc.prems(2) by simp
  have a: "\<forall>p. page + 1 \<le> p \<and> p < page + 1 + int n \<longrightarrow> page_ok (web (url_of p))"
    using Suc.prems(1) by simp
  have b: "\<forall>p acc. page + 1 \<le> p \<and> p < page + 1 + int n \<longrightarrow>
           per_page (cards_of (web (url_of p))) acc = Inr (acc @ keep (cards_of (web (url_of p))))"
    using Suc.prems(2) by simp
  have r: "[page..page + int (Suc n) - 1] = page # [page + 1..page + 1 + int n - 1]"
    by (simp add: upto_rec1 [of page])
  show ?case
    unfolding paginate_next [where web = web and url_of = url_of and page = page and per_page = per_page
        and acc = acc, OF ok pp]
      Suc.IH [OF a b] r
    by (simp add: add.assoc)
qed

lemma paginate_some_stops:
  assumes "paginate web url_of per_page page acc fetched = Some y"
  shows "\<exists>p. page \<le> p \<and> (\<not> page_ok (web (url_of p))
            \<or> (\<exists>acc e. per_page (cards_of (web (url_of p))) acc = Inl e))"
proof (induction rule: paginate.raw_induct [OF _ assms])
  case (1 pg web url_of per_page page acc fetched y)
  note IH = "1"(1) and eq = "1"(2)
  show ?case
  proof (cases "page_ok (web (url_of page))")
    case False
    then show ?thesis by (intro exI [of _ page]) simp
  next
    case True
    show ?thesis
    proof (cases "per_page (cards_of (web (url_of page))) acc")
      case (Inl e)
      then show ?thesis by (intro exI [of _ page]) auto
    next
      case (Inr acc')
      with True eq
      have "pg web url_of per_page (page + 1) acc' (fetched @ [url_of page]) = Some y"
        by (auto simp: page_ok_def cards_of_def Let_def split: fetch.splits)
      from IH [OF this] obtain p where "page + 1 \<le> p"
        and "\<not> page_ok (web (url_of p))
            \<or> (\<exists>acc e. per_page (cards_of (web (url_of p))) acc = Inl e)" by blast
      then show ?thesis by (intro exI [of _ p]) simp
    qed
  qed
qed

lemma paginate_diverges:
  assumes "\<forall>p. page \<le> p \<longrightarrow> page_ok (web (url_of p))
              \<and> (\<forall>acc. \<exists>acc'. per_page (cards_of (web (url_of p))) acc = Inr acc')"
  shows "paginate web url_of per_page page acc fetched = None"
proof (rule ccontr)
  assume "paginate web url_of per_page page acc fetched \<noteq> None"
  then obtain y where y: "paginate web url_of per_page page acc fetched = Some y" by auto
  from paginate_some_stops [OF y] obtain p acc0 where p: "page \<le> p"
    and "\<not> page_ok (web (url_of p)) \<or> (\<exists>e. per_page (cards_of (web (url_of p))) acc0 = Inl e)"
    by blast
  moreover from assms p have "page_ok (web (url_of p))"
    and "\<exists>acc'. per_page (cards_of (web (url_of p))) acc0 = Inr acc'" by auto
  ultimately show False by auto
qed

lemma g2_cards_kept:
  "g2_cards sp pf co a b cs acc = acc @ g2_kept sp pf co a b cs"
  by (simp add: g2_cards_filter g2_kept_def)

lemma capterra_cards_kept:
  "capterra_cards sp pf co a b cs acc = acc @ capterra_kept sp pf co a b cs"
  by (simp add: capterra_cards_filter capterra_kept_def)

lemma scrape_g2_pulse:
  "lower co = ''pulse'' \<Longrightarrow>
   scrape_g2 sp pf web co a b =
   paginate web (build_g2_url ''pulse'')
     (\<lambda>cards all_reviews. Inr (g2_cards sp pf co a b cards all_reviews)) 1 [] []"
  by (simp add: scrape_g2_def g2_slug_map_def)

lemma scrape_capterra_pulse:
  "lower co = ''pulse'' \<Longrightarrow>
   scrape_capterra sp pf web co a b =
   paginate web (build_capterra_url ''12345/Pulse'')
     (\<lambda>cards all_reviews. Inr (capterra_cards sp pf co a b cards all_reviews)) 1 [] []"
  by (simp add: scrape_capterra_def capterra_slug_map_def)

lemma paginate_returns:
  assumes ok: "\<forall>p \<in> {1..int N}. page_ok (web (url_of p))"
    and pp: "\<forall>p \<in> {1..int N}. \<forall>acc.
           per_page (cards_of (web (url_of p))) acc = Inr (acc @ keep (cards_of (web (url_of p))))"
    and stop: "page_stops (web (url_of (int N + 1)))"
  shows "paginate web url_of per_page 1 [] [] =
         Some (map url_of [1..int N + 1],
               Inr (concat (map (\<lambda>p. keep (cards_of (web (url_of p)))) [1..int N])))"
proof -
  have a: "\<forall>p. 1 \<le> p \<and> p < 1 + int N \<longrightarrow> page_ok (web (url_of p))" using ok by auto
  have b: "\<forall>p acc. 1 \<le> p \<and> p < 1 + int N \<longrightarrow>
           per_page (cards_of (web (url_of p))) acc = Inr (acc @ keep (cards_of (web (url_of p))))"
    using pp by auto
  have s: "page_stops (web (url_of (1 + int N)))" using stop by (simp add: add.commute)
  have r: "[1..int N + 1] = [1..int N] @ [int N + 1]"
    by (simp add: upto_rec2)
  show ?thesis
    unfolding paginate_unroll [where web = web and url_of = url_of and per_page = per_page
        and keep = keep and page = 1 and n = N, OF a b]
      paginate_stop [where web = web and url_of = url_of and page = "1 + int N", OF s] r
    by (simp add: add.commute)
qed

text \<open>
  Claim C3. For G2 and for Capterra: when the company is the configured one, pages
  \<open>1..N\<close> each answer with status 200 and at least one card, and page \<open>N + 1\<close>
  answers with another status, the extractor requests pages \<open>1..N + 1\<close> and returns
  exactly the reviews of the cards of pages \<open>1..N\<close> that pass the date filter, page
  by page and, within a page, in the order of its cards.
\<close>

theorem pages_then_failure:
  "(lower company_arg = ''pulse''
      \<and> (\<forall>p \<in> {1..int N}. page_ok (web (build_g2_url ''pulse'' p)))
      \<and> (\<exists>st cs. web (build_g2_url ''pulse'' (int N + 1)) = Response st cs \<and> st \<noteq> 200)
    \<longrightarrow> scrape_g2 strptime pyfloat web company_arg start_d end_d =
          Some (map (build_g2_url ''pulse'') [1..int N + 1],
                Inr (concat (map (\<lambda>p. g2_kept strptime pyfloat company_arg start_d end_d
                                        (cards_of (web (build_g2_url ''pulse'' p))))
                             [1..int N]))))
   \<and> (lower company_arg = ''pulse''
      \<and> (\<forall>p \<in> {1..int N}. page_ok (web (build_capterra_url ''12345/Pulse'' p)))
      \<and> (\<exists>st cs. web (build_capterra_url ''12345/Pulse'' (int N + 1)) = Response st cs
                   \<and> st \<noteq> 200)
    \<longrightarrow> scrape_capterra strptime pyfloat web company_arg start_d end_d =
          Some (map (build_capterra_url ''12345/Pulse'') [1..int N + 1],
                Inr (concat (map (\<lambda>p. capterra_kept strptime pyfloat company_arg start_d end_d
                                        (cards_of (web (build_capterra_url ''12345/Pulse'' p))))
                             [1..int N]))))"
proof (intro conjI impI; elim conjE exE)
  fix st cs
  assume co: "lower company_arg = ''pulse''"
    and ok: "\<forall>p \<in> {1..int N}. page_ok (web (build_g2_url ''pulse'' p))"
    and last: "web (build_g2_url ''pulse'' (int N + 1)) = Response st cs" "st \<noteq> 200"
  from last have stop: "page_stops (web (build_g2_url ''pulse'' (int N + 1)))"
    by (simp add: page_stops_def)
  show "scrape_g2 strptime pyfloat web company_arg start_d end_d =
          Some (map (build_g2_url ''pulse'') [1..int N + 1],
                Inr (concat (map (\<lambda>p. g2_kept strptime pyfloat company_arg start_d end_d
                                        (cards_of (web (build_g2_url ''pulse'' p))))
                             [1..int N])))"
    unfolding scrape_g2_pulse [OF co]
    by (rule paginate_returns [OF ok _ stop]) (simp add: g2_cards_kept)
next
  fix st cs
  assume co: "lower company_arg = ''pulse''"
    and ok: "\<forall>p \<in> {1..int N}. page_ok (web (build_capterra_url ''12345/Pulse'' p))"
    and last: "web (build_capterra_url ''12345/Pulse'' (int N + 1)) = Response st cs" "st \<noteq> 200"
  from last have stop: "page_stops (web (build_capterra_url ''12345/Pulse'' (int N + 1)))"
    by (simp add: page_stops_def)
  show "scrape_capterra strptime pyfloat web company_arg start_d end_d =
          Some (map (build_capterra_url ''12345/Pulse'') [1..int N + 1],
                Inr (concat (map (\<lambda>p. capterra_kept strptime pyfloat company_arg start_d end_d
                                        (cards_of (web (build_capterra_url ''12345/Pulse'' p))))
                             [1..int N])))"
    unfolding scrape_capterra_pulse [OF co]
    by (rule paginate_returns [OF ok _ stop]) (simp add: capterra_cards_kept)
qed

theorem pages_then_failure_witness:
  "page_ok (example_web (build_g2_url ''pulse'' 1))
   \<and> page_ok (example_web (build_g2_url ''pulse'' 2))
   \<and> example_web (build_g2_url ''pulse'' 3) = Response 503 []
   \<and> scrape_g2 strptime_c float_dec example_web ''Pulse'' (Date 2024 1 1) (Date 2024 12 31) =
       Some ([''https://www.g2.com/products/pulse/reviews?page=1'',
              ''https://www.g2.com/products/pulse/reviews?page=2'',
              ''https://www.g2.com/products/pulse/reviews?page=3''],
             Inr [\<lparr>title = ''Great tool'', date = ''January 5, 2024'', rating = 0,
                    reviewer_name = ''Ada L.'', review_text = ''Works well.'',
                    source = ''g2'', company = ''Pulse''\<rparr>,
                  \<lparr>title = ''Slow'', date = ''2024-03-03'', rating = 0,
                    reviewer_name = [], review_text = ''Too slow.'', source = ''g2'',
                    company = ''Pulse''\<rparr>])
   \<and> page_ok (example_web (build_capterra_url ''12345/Pulse'' 1))
   \<and> example_web (build_capterra_url ''12345/Pulse'' 2) = Response 503 []
   \<and> scrape_capterra strptime_c float_dec example_web ''Pulse'' (Date 2024 1 1) (Date 2024 12 31) =
       Some ([''https://www.capterra.com/p/12345/Pulse/reviews/'',
              ''https://www.capterra.com/p/12345/Pulse/reviews/?page=2''],
             Inr [\<lparr>title = ''Solid'', date = ''Feb 29, 2024'', rating = 4,
                    reviewer_name = ''Cy M.'', review_text = ''Solid product.'',
                    source = ''capterra'', company = ''Pulse''\<rparr>])"
proof -
  have co: "lower ''Pulse'' = ''pulse''" by code_simp
  have g1: "page_ok (example_web (build_g2_url ''pulse'' 1))"
    and g2: "page_ok (example_web (build_g2_url ''pulse'' 2))"
    and g3: "example_web (build_g2_url ''pulse'' 3) = Response 503 []"
    and c1: "page_ok (example_web (build_capterra_url ''12345/Pulse'' 1))"
    and c2: "example_web (build_capterra_url ''12345/Pulse'' 2) = Response 503 []"
    by code_simp+
  have gok: "\<forall>p \<in> {1..int 2}. page_ok (example_web (build_g2_url ''pulse'' p))"
    by code_simp
  have cok: "\<forall>p \<in> {1..int 1}. page_ok (example_web (build_capterra_url ''12345/Pulse'' p))"
    by code_simp
  have glast: "\<exists>st cs. example_web (build_g2_url ''pulse'' (int 2 + 1)) = Response st cs
                 \<and> st \<noteq> 200"
    using g3 by simp
  have clast: "\<exists>st cs. example_web (build_capterra_url ''12345/Pulse'' (int 1 + 1)) = Response st cs
                 \<and> st \<noteq> 200"
    using c2 by simp
  note tg = pages_then_failure [where company_arg = "''Pulse''" and N = 2 and web = example_web
      and strptime = strptime_c and pyfloat = float_dec and start_d = "Date 2024 1 1"
      and end_d = "Date 2024 12 31", THEN conjunct1, rule_format, OF conjI [OF co conjI [OF gok glast]]]
  note tc = pages_then_failure [where company_arg = "''Pulse''" and N = 1 and web = example_web
      and strptime = strptime_c and pyfloat = float_dec and start_d = "Date 2024 1 1"
      and end_d = "Date 2024 12 31", THEN conjunct2, rule_format, OF conjI [OF co conjI [OF cok clast]]]
  have eg: "(Some (map (build_g2_url ''pulse'') [1..int 2 + 1],
                Inr (concat (map (\<lambda>p. g2_kept strptime_c float_dec ''Pulse'' (Date 2024 1 1)
                                        (Date 2024 12 31)
                                        (cards_of (example_web (build_g2_url ''pulse'' p))))
                             [1..int 2]))) :: rat outcome option) =
       Some ([''https://www.g2.com/products/pulse/reviews?page=1'',
              ''https://www.g2.com/products/pulse/reviews?page=2'',
              ''https://www.g2.com/products/pulse/reviews?page=3''],
             Inr [\<lparr>title = ''Great tool'', date = ''January 5, 2024'', rating = 0 :: rat,
                    reviewer_name = ''Ada L.'', review_text = ''Works well.'',
                    source = ''g2'', company = ''Pulse''\<rparr>,
                  \<lparr>title = ''Slow'', date = ''2024-03-03'', rating = 0,
                    reviewer_name = [], review_text = ''Too slow.'', source = ''g2'',
                    company = ''Pulse''\<rparr>])"
    by code_simp
  have ec: "(Some (map (build_capterra_url ''12345/Pulse'') [1..int 1 + 1],
                Inr (concat (map (\<lambda>p. capterra_kept strptime_c float_dec ''Pulse'' (Date 2024 1 1)
                                        (Date 2024 12 31)
                                        (cards_of (example_web (build_capterra_url ''12345/Pulse'' p))))
                             [1..int 1]))) :: rat outcome option) =
       Some ([''https://www.capterra.com/p/12345/Pulse/reviews/'',
              ''https://www.capterra.com/p/12345/Pulse/reviews/?page=2''],
             Inr [\<lparr>title = ''Solid'', date = ''Feb 29, 2024'', rating = 4 :: rat,
                    reviewer_name = ''Cy M.'', review_text = ''Solid product.'',
                    source = ''capterra'', company = ''Pulse''\<rparr>])"
    by code_simp
  show ?thesis
    using g1 g2 g3 c1 c2 tg [unfolded eg] tc [unfolded ec] by blast
qed

section \<open>Termination of the pagination loop\<close>

lemma saas_cards_complete:
  "\<forall>c \<in> set cs. saas_complete pf co c \<Longrightarrow>
   saas_cards sp pf co a b cs acc = Inr (acc @ saas_kept sp pf co a b cs)"
  by (induction cs arbitrary: acc) (auto simp: saas_complete_def saas_kept_def split: sum.splits)

lemma saas_cards_incomplete:
  "\<exists>c \<in> set cs. \<not> saas_complete pf co c \<Longrightarrow> \<exists>e. saas_cards sp pf co a b cs acc = Inl e"
  by (induction cs arbitrary: acc) (auto simp: saas_complete_def split: sum.splits)

lemma page_ok_or_stops: "f \<noteq> RequestException \<Longrightarrow> \<not> page_stops f \<Longrightarrow> page_ok f"
  by (cases f) (auto simp: page_ok_def page_stops_def)

lemma page_ok_not_stops: "page_ok f \<Longrightarrow> \<not> page_stops f"
  by (cases f) (auto simp: page_ok_def page_stops_def)

lemma first_stop:
  assumes ex: "\<exists>k\<ge>1. page_stops (f k)" and rsp: "\<forall>p\<ge>1. f (p::int) \<noteq> RequestException"
  obtains N :: nat where "page_stops (f (int N + 1))" and "\<forall>p \<in> {1..int N}. page_ok (f p)"
proof -
  from ex obtain k where k: "1 \<le> k" "page_stops (f k)" by blast
  define Q where "Q n \<longleftrightarrow> page_stops (f (int n + 1))" for n
  have "Q (nat (k - 1))" using k by (simp add: Q_def)
  then have l: "Q (LEAST n. Q n)" by (rule LeastI)
  have m: "\<not> Q n" if "n < (LEAST n. Q n)" for n using that by (rule not_less_Least)
  have "\<forall>p \<in> {1..int (LEAST n. Q n)}. page_ok (f p)"
  proof
    fix p assume p: "p \<in> {1..int (LEAST n. Q n)}"
    then have "nat (p - 1) < (LEAST n. Q n)" by auto
    from m [OF this] p have "\<not> page_stops (f p)" by (simp add: Q_def)
    moreover from rsp p have "f p \<noteq> RequestException" by simp
    ultimately show "page_ok (f p)" by (rule page_ok_or_stops [rotated])
  qed
  with l that show thesis unfolding Q_def by blast
qed

lemma paginate_terminates:
  assumes ex: "\<exists>k\<ge>1. page_stops (web (url_of k))"
    and rsp: "\<forall>p\<ge>1. web (url_of p) \<noteq> RequestException"
    and pp: "\<forall>p\<ge>1. (\<forall>q \<in> {1..p}. page_ok (web (url_of q))) \<longrightarrow>
           (\<forall>acc. per_page (cards_of (web (url_of p))) acc =
                   Inr (acc @ keep (cards_of (web (url_of p)))))"
  shows "\<exists>k\<ge>1. page_stops (web (url_of k)) \<and> (\<forall>p \<in> {1..k - 1}. page_ok (web (url_of p)))
           \<and> paginate web url_of per_page 1 [] [] =
             Some (map url_of [1..k],
                   Inr (concat (map (\<lambda>p. keep (cards_of (web (url_of p)))) [1..k - 1])))"
proof -
  from first_stop [where f = "\<lambda>p. web (url_of p)", OF ex rsp]
  obtain N :: nat where stop: "page_stops (web (url_of (int N + 1)))"
    and ok: "\<forall>p \<in> {1..int N}. page_ok (web (url_of p))" by blast
  have pp': "\<forall>p \<in> {1..int N}. \<forall>acc.
           per_page (cards_of (web (url_of p))) acc = Inr (acc @ keep (cards_of (web (url_of p))))"
    using pp ok by auto
  from paginate_returns [OF ok pp' stop] stop ok
  show ?thesis by (intro exI [of _ "int N + 1"]) simp
qed

text \<open>
  Claim C4, as stated, fails for the generic source: its first page answers with
  status 200 and two cards, the second of which has no rating element, and its second
  page answers with status 503; the run raises \<^verbatim>\<open>TypeError\<close> on the first page instead of
  returning.
\<close>

theorem pagination_raises_counterexample:
  "page_ok (broken_web (saas_url ''Pulse'' 1))
   \<and> page_stops (broken_web (saas_url ''Pulse'' 2))
   \<and> (scrape_saas_example strptime_c float_dec broken_web ''Pulse'' (Date 2024 1 1)
         (Date 2024 12 31) :: rat outcome option) =
       Some ([''https://example-saas-reviews.com/pulse/reviews?page=1''], Inl TypeError)"
  by code_simp

text \<open>
  Claim C4, amended. Take a sequence of page responses (no request raises) in which
  some page answers with a status other than 200 or with no card. The G2 and the
  Capterra loop then return, at the first such page \<open>k\<close>, the reviews accumulated from
  pages \<open>1..k - 1\<close>; the loop of the generic source does so when every card of the
  pages it reaches has its five elements and a \<^verbatim>\<open>data-score\<close> that \<^verbatim>\<open>float\<close> accepts.
  There is no bound on the page number: when every page answers with status 200 and
  at least one card (of such cards, for the generic source), the loop never returns.
\<close>

theorem pagination_terminates:
  "(lower company_arg = ''pulse''
      \<and> (\<forall>p\<ge>1. web (build_g2_url ''pulse'' p) \<noteq> RequestException)
      \<and> (\<exists>k\<ge>1. page_stops (web (build_g2_url ''pulse'' k)))
    \<longrightarrow> (\<exists>k\<ge>1. page_stops (web (build_g2_url ''pulse'' k))
           \<and> (\<forall>p \<in> {1..k - 1}. page_ok (web (build_g2_url ''pulse'' p)))
           \<and> scrape_g2 strptime pyfloat web company_arg start_d end_d =
               Some (map (build_g2_url ''pulse'') [1..k],
                     Inr (concat (map (\<lambda>p. g2_kept strptime pyfloat company_arg start_d end_d
                                             (cards_of (web (build_g2_url ''pulse'' p))))
                                  [1..k - 1])))))
   \<and> (lower company_arg = ''pulse''
      \<and> (\<forall>p\<ge>1. page_ok (web (build_g2_url ''pulse'' p)))
    \<longrightarrow> scrape_g2 strptime pyfloat web company_arg start_d end_d = None)
   \<and> (lower company_arg = ''pulse''
      \<and> (\<forall>p\<ge>1. web (build_capterra_url ''12345/Pulse'' p) \<noteq> RequestException)
      \<and> (\<exists>k\<ge>1. page_stops (web (build_capterra_url ''12345/Pulse'' k)))
    \<longrightarrow> (\<exists>k\<ge>1. page_stops (web (build_capterra_url ''12345/Pulse'' k))
           \<and> (\<forall>p \<in> {1..k - 1}. page_ok (web (build_capterra_url ''12345/Pulse'' p)))
           \<and> scrape_capterra strptime pyfloat web company_arg start_d end_d =
               Some (map (build_capterra_url ''12345/Pulse'') [1..k],
                     Inr (concat (map (\<lambda>p. capterra_kept strptime pyfloat company_arg start_d end_d
                                             (cards_of (web (build_capterra_url ''12345/Pulse'' p))))
                                  [1..k - 1])))))
   \<and> (lower company_arg = ''pulse''
      \<and> (\<forall>p\<ge>1. page_ok (web (build_capterra_url ''12345/Pulse'' p)))
    \<longrightarrow> scrape_capterra strptime pyfloat web company_arg start_d end_d = None)
   \<and> ((\<forall>p\<ge>1. web (saas_url company_arg p) \<noteq> RequestException)
      \<and> (\<exists>k\<ge>1. page_stops (web (saas_url company_arg k)))
      \<and> (\<forall>p\<ge>1. (\<forall>q \<in> {1..p}. page_ok (web (saas_url company_arg q))) \<longrightarrow>
             (\<forall>c \<in> set (cards_of (web (saas_url company_arg p))).
                saas_complete pyfloat' company_arg c))
    \<longrightarrow> (\<exists>k\<ge>1. page_stops (web (saas_url company_arg k))
           \<and> (\<forall>p \<in> {1..k - 1}. page_ok (web (saas_url company_arg p)))
           \<and> scrape_saas_example strptime pyfloat' web company_arg start_d end_d =
               Some (map (saas_url company_arg) [1..k],
                     Inr (concat (map (\<lambda>p. saas_kept strptime pyfloat' company_arg start_d end_d
                                             (cards_of (web (saas_url company_arg p))))
                                  [1..k - 1])))))
   \<and> ((\<forall>p\<ge>1. page_ok (web (saas_url company_arg p))
              \<and> (\<forall>c \<in> set (cards_of (web (saas_url company_arg p))).
                    saas_complete pyfloat' company_arg c))
    \<longrightarrow> scrape_saas_example strptime pyfloat' web company_arg start_d end_d = None)"
proof (intro conjI impI; (elim conjE)?)
  assume co: "lower company_arg = ''pulse''"
    and rsp: "\<forall>p\<ge>1. web (build_g2_url ''pulse'' p) \<noteq> RequestException"
    and ex: "\<exists>k\<ge>1. page_stops (web (build_g2_url ''pulse'' k))"
  show "\<exists>k\<ge>1. page_stops (web (build_g2_url ''pulse'' k))
           \<and> (\<forall>p \<in> {1..k - 1}. page_ok (web (build_g2_url ''pulse'' p)))
           \<and> scrape_g2 strptime pyfloat web company_arg start_d end_d =
               Some (map (build_g2_url ''pulse'') [1..k],
                     Inr (concat (map (\<lambda>p. g2_kept strptime pyfloat company_arg start_d end_d
                                             (cards_of (web (build_g2_url ''pulse'' p))))
                                  [1..k - 1])))"
    unfolding scrape_g2_pulse [OF co]
    by (rule paginate_terminates [OF ex rsp]) (simp add: g2_cards_kept)
next
  assume co: "lower company_arg = ''pulse''"
    and ok: "\<forall>p\<ge>1. page_ok (web (build_g2_url ''pulse'' p))"
  show "scrape_g2 strptime pyfloat web company_arg start_d end_d = None"
    unfolding scrape_g2_pulse [OF co]
    by (rule paginate_diverges) (use ok in simp)
next
  assume co: "lower company_arg = ''pulse''"
    and rsp: "\<forall>p\<ge>1. web (build_capterra_url ''12345/Pulse'' p) \<noteq> RequestException"
    and ex: "\<exists>k\<ge>1. page_stops (web (build_capterra_url ''12345/Pulse'' k))"
  show "\<exists>k\<ge>1. page_stops (web (build_capterra_url ''12345/Pulse'' k))
           \<and> (\<forall>p \<in> {1..k - 1}. page_ok (web (build_capterra_url ''12345/Pulse'' p)))
           \<and> scrape_capterra strptime pyfloat web company_arg start_d end_d =
               Some (map (build_capterra_url ''12345/Pulse'') [1..k],
                     Inr (concat (map (\<lambda>p. capterra_kept strptime pyfloat company_arg start_d end_d
                                             (cards_of (web (build_capterra_url ''12345/Pulse'' p))))
                                  [1..k - 1])))"
    unfolding scrape_capterra_pulse [OF co]
    by (rule paginate_terminates [OF ex rsp]) (simp add: capterra_cards_kept)
next
  assume co: "lower company_arg = ''pulse''"
    and ok: "\<forall>p\<ge>1. page_ok (web (build_capterra_url ''12345/Pulse'' p))"
  show "scrape_capterra strptime pyfloat web company_arg start_d end_d = None"
    unfolding scrape_capterra_pulse [OF co]
    by (rule paginate_diverges) (use ok in simp)
next
  assume rsp: "\<forall>p\<ge>1. web (saas_url company_arg p) \<noteq> RequestException"
    and ex: "\<exists>k\<ge>1. page_stops (web (saas_url company_arg k))"
    and cmp: "\<forall>p\<ge>1. (\<forall>q \<in> {1..p}. page_ok (web (saas_url company_arg q))) \<longrightarrow>
             (\<forall>c \<in> set (cards_of (web (saas_url company_arg p))).
                saas_complete pyfloat' company_arg c)"
  show "\<exists>k\<ge>1. page_stops (web (saas_url company_arg k))
           \<and> (\<forall>p \<in> {1..k - 1}. page_ok (web (saas_url company_arg p)))
           \<and> scrape_saas_example strptime pyfloat' web company_arg start_d end_d =
               Some (map (saas_url company_arg) [1..k],
                     Inr (concat (map (\<lambda>p. saas_kept strptime pyfloat' company_arg start_d end_d
                                             (cards_of (web (saas_url company_arg p))))
                                  [1..k - 1])))"
    unfolding scrape_saas_example_def
    by (rule paginate_terminates [OF ex rsp]) (use cmp in \<open>simp add: saas_cards_complete\<close>)
next
  assume ok: "\<forall>p\<ge>1. page_ok (web (saas_url company_arg p))
              \<and> (\<forall>c \<in> set (cards_of (web (saas_url company_arg p))).
                    saas_complete pyfloat' company_arg c)"
  show "scrape_saas_example strptime pyfloat' web company_arg start_d end_d = None"
    unfolding scrape_saas_example_def
    by (rule paginate_diverges) (use ok in \<open>simp add: saas_cards_complete\<close>)
qed

theorem pagination_terminates_witness:
  "(\<exists>k\<ge>1. page_stops (example_web (build_g2_url ''pulse'' k))
           \<and> (\<forall>p \<in> {1..k - 1}. page_ok (example_web (build_g2_url ''pulse'' p)))
           \<and> scrape_g2 strptime_c float_dec example_web ''Pulse'' (Date 2024 1 1) (Date 2024 12 31) =
               Some (map (build_g2_url ''pulse'') [1..k],
                     Inr (concat (map (\<lambda>p. g2_kept strptime_c float_dec ''Pulse'' (Date 2024 1 1)
                                             (Date 2024 12 31)
                                             (cards_of (example_web (build_g2_url ''pulse'' p))))
                                  [1..k - 1]))))
   \<and> (\<exists>k\<ge>1. page_stops (example_web (build_capterra_url ''12345/Pulse'' k))
           \<and> (\<forall>p \<in> {1..k - 1}. page_ok (example_web (build_capterra_url ''12345/Pulse'' p)))
           \<and> scrape_capterra strptime_c float_dec example_web ''Pulse'' (Date 2024 1 1)
                 (Date 2024 12 31) =
               Some (map (build_capterra_url ''12345/Pulse'') [1..k],
                     Inr (concat (map (\<lambda>p. capterra_kept strptime_c float_dec ''Pulse''
                                             (Date 2024 1 1) (Date 2024 12 31)
                                             (cards_of (example_web (build_capterra_url ''12345/Pulse'' p))))
                                  [1..k - 1]))))
   \<and> (\<exists>k\<ge>1. page_stops (example_web (saas_url ''Pulse'' k))
           \<and> (\<forall>p \<in> {1..k - 1}. page_ok (example_web (saas_url ''Pulse'' p)))
           \<and> scrape_saas_example strptime_c float_dec example_web ''Pulse'' (Date 2023 1 1)
                 (Date 2024 12 31) =
               Some (map (saas_url ''Pulse'') [1..k],
                     Inr (concat (map (\<lambda>p. saas_kept strptime_c float_dec ''Pulse''
                                             (Date 2023 1 1) (Date 2024 12 31)
                                             (cards_of (example_web (saas_url ''Pulse'' p))))
                                  [1..k - 1]))))
   \<and> scrape_saas_example strptime_c float_dec example_web ''Pulse'' (Date 2023 1 1)
         (Date 2024 12 31) =
       Some ([''https://example-saas-reviews.com/pulse/reviews?page=1'',
              ''https://example-saas-reviews.com/pulse/reviews?page=2''],
             Inr [\<lparr>title = ''Was fine'', date = ''March 3, 2023'', rating = 9 / 2,
                    reviewer_name = ''Bo K.'', review_text = ''It was fine.'',
                    source = ''saas'', company = ''Pulse''\<rparr>,
                  \<lparr>title = ''Solid'', date = ''Feb 29, 2024'', rating = 4,
                    reviewer_name = ''Cy M.'', review_text = ''Solid product.'',
                    source = ''saas'', company = ''Pulse''\<rparr>])
   \<and> (scrape_g2 strptime_c float_dec endless_web ''Pulse'' (Date 2024 1 1) (Date 2024 12 31)
        = None)
   \<and> (scrape_capterra strptime_c float_dec endless_web ''Pulse'' (Date 2024 1 1) (Date 2024 12 31)
        = None)
   \<and> (scrape_saas_example strptime_c float_dec endless_web ''Pulse'' (Date 2024 1 1)
        (Date 2024 12 31) = None)"
proof -
  have co: "lower ''Pulse'' = ''pulse''" by code_simp
  have rsp: "\<forall>p\<ge>1. example_web (u p) \<noteq> RequestException" for u :: "int \<Rightarrow> string"
    by (simp add: example_web_def)
  have "page_stops (example_web (build_g2_url ''pulse'' 3))" by code_simp
  then have exg: "\<exists>k\<ge>1. page_stops (example_web (build_g2_url ''pulse'' k))"
    by (intro exI [of _ 3]) simp
  have "page_stops (example_web (build_capterra_url ''12345/Pulse'' 2))" by code_simp
  then have exc: "\<exists>k\<ge>1. page_stops (example_web (build_capterra_url ''12345/Pulse'' k))"
    by (intro exI [of _ 2]) simp
  have s2: "page_stops (example_web (saas_url ''Pulse'' 2))" by code_simp
  then have exs: "\<exists>k\<ge>1. page_stops (example_web (saas_url ''Pulse'' k))"
    by (intro exI [of _ 2]) simp
  have s1: "\<forall>c \<in> set (cards_of (example_web (saas_url ''Pulse'' 1))).
              saas_complete float_dec ''Pulse'' c" by code_simp
  have cmp: "\<forall>p\<ge>1. (\<forall>q \<in> {1..p}. page_ok (example_web (saas_url ''Pulse'' q))) \<longrightarrow>
             (\<forall>c \<in> set (cards_of (example_web (saas_url ''Pulse'' p))).
                saas_complete float_dec ''Pulse'' c)"
  proof (intro allI impI)
    fix p :: int
    assume p: "1 \<le> p" and ok: "\<forall>q \<in> {1..p}. page_ok (example_web (saas_url ''Pulse'' q))"
    show "\<forall>c \<in> set (cards_of (example_web (saas_url ''Pulse'' p))).
            saas_complete float_dec ''Pulse'' c"
    proof (cases "p = 1")
      case True
      with s1 show ?thesis by simp
    next
      case False
      with p ok have "page_ok (example_web (saas_url ''Pulse'' 2))" by simp
      with s2 show ?thesis using page_ok_not_stops by blast
    qed
  qed
  have eok: "\<forall>p\<ge>1. page_ok (endless_web (u p))" for u :: "int \<Rightarrow> string"
    by (simp add: endless_web_def page_ok_def)
  have "saas_complete float_dec ''Pulse'' card_full" by code_simp
  then have esok: "\<forall>p\<ge>1. page_ok (endless_web (saas_url ''Pulse'' p))
              \<and> (\<forall>c \<in> set (cards_of (endless_web (saas_url ''Pulse'' p))).
                    saas_complete float_dec ''Pulse'' c)"
    by (simp add: endless_web_def page_ok_def cards_of_def)
  note t = pagination_terminates [where company_arg = "''Pulse''" and strptime = strptime_c
      and pyfloat = float_dec and pyfloat' = float_dec and end_d = "Date 2024 12 31"]
  note te = t [where web = example_web and start_d = "Date 2024 1 1"]
  note ts = t [where web = example_web and start_d = "Date 2023 1 1"]
  note tn = t [where web = endless_web and start_d = "Date 2024 1 1"]
  note a1 = te [THEN conjunct1, THEN mp, OF conjI [OF co conjI [OF rsp exg]]]
  note a2 = tn [THEN conjunct2, THEN conjunct1, THEN mp, OF conjI [OF co eok]]
  note a3 = te [THEN conjunct2, THEN conjunct2, THEN conjunct1, THEN mp,
      OF conjI [OF co conjI [OF rsp exc]]]
  note a4 = tn [THEN conjunct2, THEN conjunct2, THEN conjunct2, THEN conjunct1, THEN mp,
      OF conjI [OF co eok]]
  note a5 = ts [THEN conjunct2, THEN conjunct2, THEN conjunct2, THEN conjunct2, THEN conjunct1,
      THEN mp, OF conjI [OF rsp conjI [OF exs cmp]]]
  note a6 = tn [THEN conjunct2, THEN conjunct2, THEN conjunct2, THEN conjunct2, THEN conjunct2,
      THEN mp, OF esok]
  have v: "scrape_saas_example strptime_c float_dec example_web ''Pulse'' (Date 2023 1 1)
         (Date 2024 12 31) =
       Some ([''https://example-saas-reviews.com/pulse/reviews?page=1'',
              ''https://example-saas-reviews.com/pulse/reviews?page=2''],
             Inr [\<lparr>title = ''Was fine'', date = ''March 3, 2023'', rating = 9 / 2,
                    reviewer_name = ''Bo K.'', review_text = ''It was fine.'',
                    source = ''saas'', company = ''Pulse''\<rparr>,
                  \<lparr>title = ''Solid'', date = ''Feb 29, 2024'', rating = 4,
                    reviewer_name = ''Cy M.'', review_text = ''Solid product.'',
                    source = ''saas'', company = ''Pulse''\<rparr>])"
    by code_simp
  show ?thesis
    by (intro conjI) (rule a1 a2 a3 a4 a5 a6 v)+
qed

section \<open>Errors that end the run\<close>

lemma paginate_raises_from:
  assumes "\<forall>p. page \<le> p \<and> p \<le> page + int n \<longrightarrow> page_ok (web (url_of p))"
    and "\<forall>acc. \<exists>e. per_page (cards_of (web (url_of (page + int n)))) acc = Inl e"
  shows "\<exists>fetched e. paginate web url_of per_page page acc f = Some (fetched, Inl e)"
  using assms
proof (induction n arbitrary: page acc f)
  case 0
  then have ok: "page_ok (web (url_of page))" by simp
  from 0 obtain e where "per_page (cards_of (web (url_of page))) acc = Inl e" by auto
  from paginate_cards_raise [where web = web and url_of = url_of and page = page
      and per_page = per_page and acc = acc, OF ok this]
  show ?case by blast
next
  case (Suc n)
  then have ok: "page_ok (web (url_of page))" by simp
  show ?case
  proof (cases "per_page (cards_of (web (url_of page))) acc")
    case (Inl e)
    from paginate_cards_raise [where web = web and url_of = url_of and page = page
      and per_page = per_page and acc = acc, OF ok this]
    show ?thesis by blast
  next
    case (Inr acc')
    have a: "\<forall>p. page + 1 \<le> p \<and> p \<le> page + 1 + int n \<longrightarrow> page_ok (web (url_of p))"
      using Suc.prems(1) by simp
    have b: "\<forall>acc. \<exists>e. per_page (cards_of (web (url_of (page + 1 + int n)))) acc = Inl e"
    proof -
      have "page + 1 + int n = page + int (Suc n)" by simp
      with Suc.prems(2) show ?thesis by metis
    qed
    from Suc.IH [OF a b]
    show ?thesis
      unfolding paginate_next [where web = web and url_of = url_of and page = page
          and per_page = per_page and acc = acc, OF ok Inr] .
  qed
qed

lemma main_saas:
  "main sp pf jd web (co, a, b, ''saas'') =
     (case scrape_saas_example sp pf web co a b of
        None \<Rightarrow> None
      | Some (fetched, Inl e) \<Rightarrow> Some (fetched, Inl e)
      | Some (fetched, Inr reviews) \<Rightarrow> Some (fetched, Inr (write_json jd co ''saas'' reviews)))"
  by (simp add: main_def)

lemma main_g2:
  "main sp pf jd web (co, a, b, ''g2'') =
     (case scrape_g2 sp pf web co a b of
        None \<Rightarrow> None
      | Some (fetched, Inl e) \<Rightarrow> Some (fetched, Inl e)
      | Some (fetched, Inr reviews) \<Rightarrow> Some (fetched, Inr (write_json jd co ''g2'' reviews)))"
  by (simp add: main_def)

lemma main_capterra:
  "main sp pf jd web (co, a, b, ''capterra'') =
     (case scrape_capterra sp pf web co a b of
        None \<Rightarrow> None
      | Some (fetched, Inl e) \<Rightarrow> Some (fetched, Inl e)
      | Some (fetched, Inr reviews) \<Rightarrow> Some (fetched, Inr (write_json jd co ''capterra'' reviews)))"
  by (simp add: main_def)

lemma saas_extract_missing:
  "title_el c = None \<or> date_el c = None \<or> rating_el c = None \<or> user_el c = None
     \<or> body_el c = None \<Longrightarrow> \<exists>e. saas_extract pf co c = Inl e"
  by (auto simp: saas_extract_def split: option.splits)

text \<open>
  Claim C6. In the extractor of the generic source, a card that lacks its title,
  date, rating, reviewer-name or body element makes the extraction raise; when the
  card is on a page the loop reaches (pages \<open>1..N + 1\<close> answer with status 200 and at
  least one card, and the card is on page \<open>N + 1\<close>), the exception leaves the
  extractor and \<^verbatim>\<open>main\<close>, so the run ends with it and nothing is written. The other two
  extractors give the same card the default: the empty string, or rating \<open>0\<close>.
\<close>

theorem saas_missing_element_aborts:
  "(title_el c = None \<or> date_el c = None \<or> rating_el c = None \<or> user_el c = None
      \<or> body_el c = None)
   \<and> (\<forall>p \<in> {1..int N + 1}. page_ok (web (saas_url company_arg p)))
   \<and> c \<in> set (cards_of (web (saas_url company_arg (int N + 1))))
   \<longrightarrow> (\<exists>e. saas_extract pyfloat company_arg c = Inl e)
       \<and> (\<exists>fetched e.
             scrape_saas_example strptime pyfloat web company_arg start_d end_d
               = Some (fetched, Inl e)
             \<and> main strptime pyfloat json_dump web (company_arg, start_d, end_d, ''saas'')
               = Some (fetched, Inl e))
       \<and> (title_el c = None \<longrightarrow> saas_extract pyfloat company_arg c = Inl AttributeError
             \<and> title (g2_extract pyfloat company_arg c) = []
             \<and> title (capterra_extract pyfloat company_arg c) = [])
       \<and> (rating_el c = None \<longrightarrow> rating (g2_extract pyfloat company_arg c) = 0
             \<and> rating (capterra_extract pyfloat company_arg c) = 0)"
proof (intro impI, elim conjE)
  assume miss: "title_el c = None \<or> date_el c = None \<or> rating_el c = None \<or> user_el c = None
      \<or> body_el c = None"
    and ok: "\<forall>p \<in> {1..int N + 1}. page_ok (web (saas_url company_arg p))"
    and c: "c \<in> set (cards_of (web (saas_url company_arg (int N + 1))))"
  from saas_extract_missing [OF miss] obtain e0 where e0: "saas_extract pyfloat company_arg c = Inl e0"
    by blast
  then have "\<not> saas_complete pyfloat company_arg c" by (simp add: saas_complete_def)
  with c have inc: "\<exists>c \<in> set (cards_of (web (saas_url company_arg (int N + 1)))).
                      \<not> saas_complete pyfloat company_arg c" by blast
  have a: "\<forall>p. 1 \<le> p \<and> p \<le> 1 + int N \<longrightarrow> page_ok (web (saas_url company_arg p))"
    using ok by simp
  have b: "\<forall>acc. \<exists>e. saas_cards strptime pyfloat company_arg start_d end_d
                  (cards_of (web (saas_url company_arg (1 + int N)))) acc = Inl e"
    using saas_cards_incomplete [OF inc] by (simp add: add.commute)
  from paginate_raises_from [where page = 1 and n = N and web = web
      and url_of = "saas_url company_arg"
      and per_page = "saas_cards strptime pyfloat company_arg start_d end_d", OF a b]
  obtain fetched e where
    r: "scrape_saas_example strptime pyfloat web company_arg start_d end_d = Some (fetched, Inl e)"
    unfolding scrape_saas_example_def by blast
  then have m: "main strptime pyfloat json_dump web (company_arg, start_d, end_d, ''saas'')
               = Some (fetched, Inl e)"
    by (simp add: main_saas)
  have t: "title_el c = None \<longrightarrow> saas_extract pyfloat company_arg c = Inl AttributeError
             \<and> title (g2_extract pyfloat company_arg c) = []
             \<and> title (capterra_extract pyfloat company_arg c) = []"
    by (simp add: saas_extract_def g2_extract_def capterra_extract_def Let_def)
  have g: "rating_el c = None \<longrightarrow> rating (g2_extract pyfloat company_arg c) = 0
             \<and> rating (capterra_extract pyfloat company_arg c) = 0"
    by (simp add: g2_extract_def capterra_extract_def Let_def)
  from e0 r m t g
  show "(\<exists>e. saas_extract pyfloat company_arg c = Inl e)
       \<and> (\<exists>fetched e.
             scrape_saas_example strptime pyfloat web company_arg start_d end_d
               = Some (fetched, Inl e)
             \<and> main strptime pyfloat json_dump web (company_arg, start_d, end_d, ''saas'')
               = Some (fetched, Inl e))
       \<and> (title_el c = None \<longrightarrow> saas_extract pyfloat company_arg c = Inl AttributeError
             \<and> title (g2_extract pyfloat company_arg c) = []
             \<and> title (capterra_extract pyfloat company_arg c) = [])
       \<and> (rating_el c = None \<longrightarrow> rating (g2_extract pyfloat company_arg c) = 0
             \<and> rating (capterra_extract pyfloat company_arg c) = 0)"
    by blast
qed

theorem saas_missing_element_aborts_witness:
  "rating_el card_no_rating = None
   \<and> page_ok (broken_web (saas_url ''Pulse'' 1))
   \<and> card_no_rating \<in> set (cards_of (broken_web (saas_url ''Pulse'' 1)))
   \<and> saas_extract float_dec ''Pulse'' card_no_rating = Inl TypeError
   \<and> rating (g2_extract float_dec ''Pulse'' card_no_rating) = 0
   \<and> (\<exists>fetched e.
         scrape_saas_example strptime_c float_dec broken_web ''Pulse'' (Date 2024 1 1)
           (Date 2024 12 31) = Some (fetched, Inl e)
         \<and> main strptime_c float_dec json_dump_c broken_web
             (''Pulse'', Date 2024 1 1, Date 2024 12 31, ''saas'') = Some (fetched, Inl e))
   \<and> main strptime_c float_dec json_dump_c broken_web
        (''Pulse'', Date 2024 1 1, Date 2024 12 31, ''saas'') =
       Some ([''https://example-saas-reviews.com/pulse/reviews?page=1''], Inl TypeError)"
proof -
  have h1: "rating_el card_no_rating = None" by (simp add: card_no_rating_def)
  have h2: "\<forall>p \<in> {1..int 0 + 1}. page_ok (broken_web (saas_url ''Pulse'' p))" by code_simp
  have h2': "page_ok (broken_web (saas_url ''Pulse'' 1))" by code_simp
  have h3: "card_no_rating \<in> set (cards_of (broken_web (saas_url ''Pulse'' (int 0 + 1))))"
    by code_simp
  have h3': "card_no_rating \<in> set (cards_of (broken_web (saas_url ''Pulse'' 1)))"
    by code_simp
  have v1: "saas_extract float_dec ''Pulse'' card_no_rating = Inl TypeError" by code_simp
  have v2: "main strptime_c float_dec json_dump_c broken_web
        (''Pulse'', Date 2024 1 1, Date 2024 12 31, ''saas'') =
       Some ([''https://example-saas-reviews.com/pulse/reviews?page=1''], Inl TypeError)"
    by code_simp
  have h: "title_el card_no_rating = None \<or> date_el card_no_rating = None
      \<or> rating_el card_no_rating = None \<or> user_el card_no_rating = None
      \<or> body_el card_no_rating = None" using h1 by simp
  note t = saas_missing_element_aborts [where c = card_no_rating and N = 0 and web = broken_web
      and company_arg = "''Pulse''" and pyfloat = float_dec and strptime = strptime_c
      and start_d = "Date 2024 1 1" and end_d = "Date 2024 12 31" and json_dump = json_dump_c,
      THEN mp, OF conjI [OF h conjI [OF h2 h3]]]
  from t h1 have g: "rating (g2_extract float_dec ''Pulse'' card_no_rating) = 0" by blast
  from t have s: "\<exists>fetched e.
         scrape_saas_example strptime_c float_dec broken_web ''Pulse'' (Date 2024 1 1)
           (Date 2024 12 31) = Some (fetched, Inl e)
         \<and> main strptime_c float_dec json_dump_c broken_web
             (''Pulse'', Date 2024 1 1, Date 2024 12 31, ''saas'') = Some (fetched, Inl e)"
    by blast
  show ?thesis
    by (intro conjI) (rule h1 h2' h3' v1 v2 g s)+
qed

lemma paginate_request_fails_after:
  assumes ok: "\<forall>p \<in> {1..int N}. page_ok (web (url_of p))"
    and pp: "\<forall>p \<in> {1..int N}. \<forall>acc.
           per_page (cards_of (web (url_of p))) acc = Inr (acc @ keep (cards_of (web (url_of p))))"
    and exc: "web (url_of (int N + 1)) = RequestException"
  shows "paginate web url_of per_page 1 [] [] = Some (map url_of [1..int N + 1], Inl RequestError)"
proof -
  have a: "\<forall>p. 1 \<le> p \<and> p < 1 + int N \<longrightarrow> page_ok (web (url_of p))" using ok by auto
  have b: "\<forall>p acc. 1 \<le> p \<and> p < 1 + int N \<longrightarrow>
           per_page (cards_of (web (url_of p))) acc = Inr (acc @ keep (cards_of (web (url_of p))))"
    using pp by auto
  have s: "web (url_of (1 + int N)) = RequestException" using exc by (simp add: add.commute)
  have r: "[1..int N + 1] = [1..int N] @ [int N + 1]"
    by (simp add: upto_rec2)
  show ?thesis
    unfolding paginate_unroll [where web = web and url_of = url_of and per_page = per_page
        and keep = keep and page = 1 and n = N, OF a b]
      paginate_request_raises [where web = web and url_of = url_of and page = "1 + int N", OF s] r
    by (simp add: add.commute)
qed

lemma paginate_fetches_first:
  assumes "paginate web url_of per_page page acc fetched = Some y"
  shows "\<exists>rest. fst y = fetched @ url_of page # rest"
proof (induction rule: paginate.raw_induct [OF _ assms])
  case (1 pg web url_of per_page page acc fetched y)
  note IH = "1"(1) and eq = "1"(2)
  show ?case
  proof (cases "web (url_of page)")
    case RequestException
    with eq show ?thesis by (auto simp: Let_def)
  next
    case (Response st cs)
    show ?thesis
    proof (cases "st \<noteq> 200 \<or> cs = []")
      case True
      with eq Response show ?thesis by (auto simp: Let_def split: if_splits)
    next
      case False
      show ?thesis
      proof (cases "per_page cs acc")
        case (Inl e)
        with eq Response False show ?thesis by (auto simp: Let_def)
      next
        case (Inr acc')
        with eq Response False
        have "pg web url_of per_page (page + 1) acc' (fetched @ [url_of page]) = Some y"
          by (auto simp: Let_def)
        from IH [OF this] show ?thesis by auto
      qed
    qed
  qed
qed

text \<open>
  Claim C7, as stated, fails in its last part: for a configured company, a request
  that raises (here the first one) is not caught, and the run ends with the
  exception and writes nothing.
\<close>

theorem network_failure_aborts_counterexample:
  "map_of g2_slug_map (lower ''Pulse'') = Some ''pulse''
   \<and> refusing_web (build_g2_url ''pulse'' 1) = RequestException
   \<and> main strptime_c float_dec json_dump_c refusing_web
        (''Pulse'', Date 2024 1 1, Date 2024 12 31, ''g2'') =
       Some ([''https://www.g2.com/products/pulse/reviews?page=1''], Inl RequestError)"
  by code_simp

text \<open>
  Claim C7, amended. When the lower-cased company has no entry in the product
  mapping, the G2 and the Capterra extractor raise \<^verbatim>\<open>ValueError\<close> before any page is
  requested, and the run ends with it; the generic source has no mapping and always
  requests its first page. This differs from a failing page: after \<open>N\<close> pages with
  status 200 and cards, an answer with another status ends the loop normally and
  the reviews so far are written, while a request that raises ends the run with that
  exception, after the request.
\<close>

theorem configuration_gap_aborts:
  "(map_of g2_slug_map (lower company_arg) = None
    \<longrightarrow> scrape_g2 strptime pyfloat web company_arg start_d end_d =
          Some ([], Inl (ValueError (''No G2 slug configured for '' @ [CHR 0x27] @ company_arg
                  @ [CHR 0x27] @ ''. Update slug_map in scrape_g2().'')))
        \<and> main strptime pyfloat json_dump web (company_arg, start_d, end_d, ''g2'') =
          Some ([], Inl (ValueError (''No G2 slug configured for '' @ [CHR 0x27] @ company_arg
                  @ [CHR 0x27] @ ''. Update slug_map in scrape_g2().''))))
   \<and> (map_of capterra_slug_map (lower company_arg) = None
    \<longrightarrow> scrape_capterra strptime pyfloat web company_arg start_d end_d =
          Some ([], Inl (ValueError (''No Capterra path configured for '' @ [CHR 0x27]
                  @ company_arg @ [CHR 0x27] @ ''. Update slug_map in scrape_capterra().'')))
        \<and> main strptime pyfloat json_dump web (company_arg, start_d, end_d, ''capterra'') =
          Some ([], Inl (ValueError (''No Capterra path configured for '' @ [CHR 0x27]
                  @ company_arg @ [CHR 0x27] @ ''. Update slug_map in scrape_capterra().''))))
   \<and> (scrape_saas_example strptime pyfloat web company_arg start_d end_d = Some (fetched, r)
    \<longrightarrow> (\<exists>rest. fetched = saas_url company_arg 1 # rest))
   \<and> (lower company_arg = ''pulse''
      \<and> (\<forall>p \<in> {1..int N}. page_ok (web (build_g2_url ''pulse'' p)))
      \<and> (\<exists>st cs. web (build_g2_url ''pulse'' (int N + 1)) = Response st cs \<and> st \<noteq> 200)
    \<longrightarrow> main strptime pyfloat json_dump web (company_arg, start_d, end_d, ''g2'') =
          Some (map (build_g2_url ''pulse'') [1..int N + 1],
                Inr (write_json json_dump company_arg ''g2''
                  (concat (map (\<lambda>p. g2_kept strptime pyfloat company_arg start_d end_d
                                        (cards_of (web (build_g2_url ''pulse'' p))))
                             [1..int N])))))
   \<and> (lower company_arg = ''pulse''
      \<and> (\<forall>p \<in> {1..int N}. page_ok (web (build_capterra_url ''12345/Pulse'' p)))
      \<and> (\<exists>st cs. web (build_capterra_url ''12345/Pulse'' (int N + 1)) = Response st cs
                   \<and> st \<noteq> 200)
    \<longrightarrow> main strptime pyfloat json_dump web (company_arg, start_d, end_d, ''capterra'') =
          Some (map (build_capterra_url ''12345/Pulse'') [1..int N + 1],
                Inr (write_json json_dump company_arg ''capterra''
                  (concat (map (\<lambda>p. capterra_kept strptime pyfloat company_arg start_d end_d
                                        (cards_of (web (build_capterra_url ''12345/Pulse'' p))))
                             [1..int N])))))
   \<and> (lower company_arg = ''pulse''
      \<and> (\<forall>p \<in> {1..int N}. page_ok (web (build_g2_url ''pulse'' p)))
      \<and> web (build_g2_url ''pulse'' (int N + 1)) = RequestException
    \<longrightarrow> main strptime pyfloat json_dump web (company_arg, start_d, end_d, ''g2'') =
          Some (map (build_g2_url ''pulse'') [1..int N + 1], Inl RequestError))
   \<and> (lower company_arg = ''pulse''
      \<and> (\<forall>p \<in> {1..int N}. page_ok (web (build_capterra_url ''12345/Pulse'' p)))
      \<and> web (build_capterra_url ''12345/Pulse'' (int N + 1)) = RequestException
    \<longrightarrow> main strptime pyfloat json_dump web (company_arg, start_d, end_d, ''capterra'') =
          Some (map (build_capterra_url ''12345/Pulse'') [1..int N + 1], Inl RequestError))"
proof (intro conjI impI; (elim conjE exE)?)
  assume "map_of g2_slug_map (lower company_arg) = None"
  then show "scrape_g2 strptime pyfloat web company_arg start_d end_d =
          Some ([], Inl (ValueError (''No G2 slug configured for '' @ [CHR 0x27] @ company_arg
                  @ [CHR 0x27] @ ''. Update slug_map in scrape_g2().'')))"
    by (simp add: scrape_g2_def)
  then show "main strptime pyfloat json_dump web (company_arg, start_d, end_d, ''g2'') =
          Some ([], Inl (ValueError (''No G2 slug configured for '' @ [CHR 0x27] @ company_arg
                  @ [CHR 0x27] @ ''. Update slug_map in scrape_g2().'')))"
    by (simp add: main_g2)
next
  assume "map_of capterra_slug_map (lower company_arg) = None"
  then show "scrape_capterra strptime pyfloat web company_arg start_d end_d =
          Some ([], Inl (ValueError (''No Capterra path configured for '' @ [CHR 0x27]
                  @ company_arg @ [CHR 0x27] @ ''. Update slug_map in scrape_capterra().'')))"
    by (simp add: scrape_capterra_def)
  then show "main strptime pyfloat json_dump web (company_arg, start_d, end_d, ''capterra'') =
          Some ([], Inl (ValueError (''No Capterra path configured for '' @ [CHR 0x27]
                  @ company_arg @ [CHR 0x27] @ ''. Update slug_map in scrape_capterra().'')))"
    by (simp add: main_capterra)
next
  assume "scrape_saas_example strptime pyfloat web company_arg start_d end_d = Some (fetched, r)"
  from paginate_fetches_first [OF this [unfolded scrape_saas_example_def]]
  show "\<exists>rest. fetched = saas_url company_arg 1 # rest" by simp
next
  fix st cs
  assume co: "lower company_arg = ''pulse''"
    and ok: "\<forall>p \<in> {1..int N}. page_ok (web (build_g2_url ''pulse'' p))"
    and last: "web (build_g2_url ''pulse'' (int N + 1)) = Response st cs" "st \<noteq> 200"
  from last have stop: "page_stops (web (build_g2_url ''pulse'' (int N + 1)))"
    by (simp add: page_stops_def)
  have "scrape_g2 strptime pyfloat web company_arg start_d end_d =
          Some (map (build_g2_url ''pulse'') [1..int N + 1],
                Inr (concat (map (\<lambda>p. g2_kept strptime pyfloat company_arg start_d end_d
                                        (cards_of (web (build_g2_url ''pulse'' p))))
                             [1..int N])))"
    unfolding scrape_g2_pulse [OF co]
    by (rule paginate_returns [OF ok _ stop]) (simp add: g2_cards_kept)
  then show "main strptime pyfloat json_dump web (company_arg, start_d, end_d, ''g2'') =
          Some (map (build_g2_url ''pulse'') [1..int N + 1],
                Inr (write_json json_dump company_arg ''g2''
                  (concat (map (\<lambda>p. g2_kept strptime pyfloat company_arg start_d end_d
                                        (cards_of (web (build_g2_url ''pulse'' p))))
                             [1..int N]))))"
    by (simp add: main_g2)
next
  fix st cs
  assume co: "lower company_arg = ''pulse''"
    and ok: "\<forall>p \<in> {1..int N}. page_ok (web (build_capterra_url ''12345/Pulse'' p))"
    and last: "web (build_capterra_url ''12345/Pulse'' (int N + 1)) = Response st cs" "st \<noteq> 200"
  from last have stop: "page_stops (web (build_capterra_url ''12345/Pulse'' (int N + 1)))"
    by (simp add: page_stops_def)
  have "scrape_capterra strptime pyfloat web company_arg start_d end_d =
          Some (map (build_capterra_url ''12345/Pulse'') [1..int N + 1],
                Inr (concat (map (\<lambda>p. capterra_kept strptime pyfloat company_arg start_d end_d
                                        (cards_of (web (build_capterra_url ''12345/Pulse'' p))))
                             [1..int N])))"
    unfolding scrape_capterra_pulse [OF co]
    by (rule paginate_returns [OF ok _ stop]) (simp add: capterra_cards_kept)
  then show "main strptime pyfloat json_dump web (company_arg, start_d, end_d, ''capterra'') =
          Some (map (build_capterra_url ''12345/Pulse'') [1..int N + 1],
                Inr (write_json json_dump company_arg ''capterra''
                  (concat (map (\<lambda>p. capterra_kept strptime pyfloat company_arg start_d end_d
                                        (cards_of (web (build_capterra_url ''12345/Pulse'' p))))
                             [1..int N]))))"
    by (simp add: main_capterra)
next
  assume co: "lower company_arg = ''pulse''"
    and ok: "\<forall>p \<in> {1..int N}. page_ok (web (build_g2_url ''pulse'' p))"
    and exc: "web (build_g2_url ''pulse'' (int N + 1)) = RequestException"
  have "scrape_g2 strptime pyfloat web company_arg start_d end_d =
          Some (map (build_g2_url ''pulse'') [1..int N + 1], Inl RequestError)"
    unfolding scrape_g2_pulse [OF co]
    by (rule paginate_request_fails_after
          [where keep = "g2_kept strptime pyfloat company_arg start_d end_d", OF ok _ exc])
       (simp add: g2_cards_kept)
  then show "main strptime pyfloat json_dump web (company_arg, start_d, end_d, ''g2'') =
          Some (map (build_g2_url ''pulse'') [1..int N + 1], Inl RequestError)"
    by (simp add: main_g2)
next
  assume co: "lower company_arg = ''pulse''"
    and ok: "\<forall>p \<in> {1..int N}. page_ok (web (build_capterra_url ''12345/Pulse'' p))"
    and exc: "web (build_capterra_url ''12345/Pulse'' (int N + 1)) = RequestException"
  have "scrape_capterra strptime pyfloat web company_arg start_d end_d =
          Some (map (build_capterra_url ''12345/Pulse'') [1..int N + 1], Inl RequestError)"
    unfolding scrape_capterra_pulse [OF co]
    by (rule paginate_request_fails_after
          [where keep = "capterra_kept strptime pyfloat company_arg start_d end_d", OF ok _ exc])
       (simp add: capterra_cards_kept)
  then show "main strptime pyfloat json_dump web (company_arg, start_d, end_d, ''capterra'') =
          Some (map (build_capterra_url ''12345/Pulse'') [1..int N + 1], Inl RequestError)"
    by (simp add: main_capterra)
qed

theorem configuration_gap_aborts_witness:
  "map_of g2_slug_map (lower ''Acme'') = None
   \<and> map_of capterra_slug_map (lower ''Acme'') = None
   \<and> main strptime_c float_dec json_dump_c example_web
        (''Acme'', Date 2024 1 1, Date 2024 12 31, ''g2'') =
       Some ([], Inl (ValueError (''No G2 slug configured for '' @ [CHR 0x27] @ ''Acme''
                  @ [CHR 0x27] @ ''. Update slug_map in scrape_g2().'')))
   \<and> main strptime_c float_dec json_dump_c example_web
        (''Acme'', Date 2024 1 1, Date 2024 12 31, ''capterra'') =
       Some ([], Inl (ValueError (''No Capterra path configured for '' @ [CHR 0x27] @ ''Acme''
                  @ [CHR 0x27] @ ''. Update slug_map in scrape_capterra().'')))
   \<and> (\<exists>rest. [''https://example-saas-reviews.com/acme/reviews?page=1''] =
                 saas_url ''Acme'' 1 # rest)
   \<and> main strptime_c float_dec json_dump_c example_web
        (''Pulse'', Date 2024 1 1, Date 2024 12 31, ''g2'') =
       Some ([''https://www.g2.com/products/pulse/reviews?page=1'',
              ''https://www.g2.com/products/pulse/reviews?page=2'',
              ''https://www.g2.com/products/pulse/reviews?page=3''],
             Inr (write_json json_dump_c ''Pulse'' ''g2''
                   [\<lparr>title = ''Great tool'', date = ''January 5, 2024'', rating = 0,
                      reviewer_name = ''Ada L.'', review_text = ''Works well.'',
                      source = ''g2'', company = ''Pulse''\<rparr>,
                    \<lparr>title = ''Slow'', date = ''2024-03-03'', rating = 0,
                      reviewer_name = [], review_text = ''Too slow.'', source = ''g2'',
                      company = ''Pulse''\<rparr>]))
   \<and> main strptime_c float_dec json_dump_c example_web
        (''Pulse'', Date 2024 1 1, Date 2024 12 31, ''capterra'') =
       Some ([''https://www.capterra.com/p/12345/Pulse/reviews/'',
              ''https://www.capterra.com/p/12345/Pulse/reviews/?page=2''],
             Inr (write_json json_dump_c ''Pulse'' ''capterra''
                   [\<lparr>title = ''Solid'', date = ''Feb 29, 2024'', rating = 4,
                      reviewer_name = ''Cy M.'', review_text = ''Solid product.'',
                      source = ''capterra'', company = ''Pulse''\<rparr>]))
   \<and> main strptime_c float_dec json_dump_c refusing_web
        (''Pulse'', Date 2024 1 1, Date 2024 12 31, ''g2'') =
       Some ([''https://www.g2.com/products/pulse/reviews?page=1''], Inl RequestError)
   \<and> main strptime_c float_dec json_dump_c refusing_web
        (''Pulse'', Date 2024 1 1, Date 2024 12 31, ''capterra'') =
       Some ([''https://www.capterra.com/p/12345/Pulse/reviews/''], Inl RequestError)"
proof -
  have co: "lower ''Pulse'' = ''pulse''" by code_simp
  have n1: "map_of g2_slug_map (lower ''Acme'') = None"
    and n2: "map_of capterra_slug_map (lower ''Acme'') = None" by code_simp+
  have sa: "scrape_saas_example strptime_c float_dec example_web ''Acme'' (Date 2024 1 1)
              (Date 2024 12 31) =
            Some ([''https://example-saas-reviews.com/acme/reviews?page=1''], Inr [])"
    by code_simp
  have gok: "\<forall>p \<in> {1..int 2}. page_ok (example_web (build_g2_url ''pulse'' p))"
    by code_simp
  have cok: "\<forall>p \<in> {1..int 1}. page_ok (example_web (build_capterra_url ''12345/Pulse'' p))"
    by code_simp
  have "example_web (build_g2_url ''pulse'' (int 2 + 1)) = Response 503 []" by code_simp
  then have glast: "\<exists>st cs. example_web (build_g2_url ''pulse'' (int 2 + 1)) = Response st cs
                 \<and> st \<noteq> 200" by simp
  have "example_web (build_capterra_url ''12345/Pulse'' (int 1 + 1)) = Response 503 []"
    by code_simp
  then have clast: "\<exists>st cs. example_web (build_capterra_url ''12345/Pulse'' (int 1 + 1))
                 = Response st cs \<and> st \<noteq> 200" by simp
  have rok: "\<forall>p \<in> {1..int 0}. page_ok (refusing_web (u p))" for u :: "int \<Rightarrow> string"
    by simp
  have rexc: "refusing_web (u (int 0 + 1)) = RequestException" for u :: "int \<Rightarrow> string"
    by (simp add: refusing_web_def)
  note t = configuration_gap_aborts [where strptime = strptime_c and pyfloat = float_dec
      and json_dump = json_dump_c and start_d = "Date 2024 1 1" and end_d = "Date 2024 12 31"]
  note ta = t [where company_arg = "''Acme''" and web = example_web]
  note a1 = ta [THEN conjunct1, THEN mp, OF n1, THEN conjunct2]
  note a2 = ta [THEN conjunct2, THEN conjunct1, THEN mp, OF n2, THEN conjunct2]
  note a3 = ta [where fetched = "[''https://example-saas-reviews.com/acme/reviews?page=1'']"
      and r = "Inr []", THEN conjunct2, THEN conjunct2, THEN conjunct1, THEN mp, OF sa]
  note tp = t [where company_arg = "''Pulse''"]
  note a4 = tp [where web = example_web and N = 2, THEN conjunct2, THEN conjunct2,
      THEN conjunct2, THEN conjunct1, THEN mp, OF conjI [OF co conjI [OF gok glast]]]
  note a5 = tp [where web = example_web and N = 1, THEN conjunct2, THEN conjunct2,
      THEN conjunct2, THEN conjunct2, THEN conjunct1, THEN mp,
      OF conjI [OF co conjI [OF cok clast]]]
  note a6 = tp [where web = refusing_web and N = 0, THEN conjunct2, THEN conjunct2,
      THEN conjunct2, THEN conjunct2, THEN conjunct2, THEN conjunct1, THEN mp,
      OF conjI [OF co conjI [OF rok [of "build_g2_url ''pulse''"]
        rexc [of "build_g2_url ''pulse''"]]]]
  note a7 = tp [where web = refusing_web and N = 0, THEN conjunct2, THEN conjunct2,
      THEN conjunct2, THEN conjunct2, THEN conjunct2, THEN conjunct2, THEN mp,
      OF conjI [OF co conjI [OF rok [of "build_capterra_url ''12345/Pulse''"]
        rexc [of "build_capterra_url ''12345/Pulse''"]]]]
  have e4: "map (build_g2_url ''pulse'') [1..int 2 + 1] =
              [''https://www.g2.com/products/pulse/reviews?page=1'',
               ''https://www.g2.com/products/pulse/reviews?page=2'',
               ''https://www.g2.com/products/pulse/reviews?page=3'']" by code_simp
  have k4: "concat (map (\<lambda>p. g2_kept strptime_c float_dec ''Pulse'' (Date 2024 1 1)
                          (Date 2024 12 31) (cards_of (example_web (build_g2_url ''pulse'' p))))
                 [1..int 2]) =
              [\<lparr>title = ''Great tool'', date = ''January 5, 2024'', rating = 0 :: rat,
                      reviewer_name = ''Ada L.'', review_text = ''Works well.'',
                      source = ''g2'', company = ''Pulse''\<rparr>,
                    \<lparr>title = ''Slow'', date = ''2024-03-03'', rating = 0,
                      reviewer_name = [], review_text = ''Too slow.'', source = ''g2'',
                      company = ''Pulse''\<rparr>]" by code_simp
  have e5: "map (build_capterra_url ''12345/Pulse'') [1..int 1 + 1] =
              [''https://www.capterra.com/p/12345/Pulse/reviews/'',
               ''https://www.capterra.com/p/12345/Pulse/reviews/?page=2'']" by code_simp
  have k5: "concat (map (\<lambda>p. capterra_kept strptime_c float_dec ''Pulse'' (Date 2024 1 1)
                          (Date 2024 12 31)
                          (cards_of (example_web (build_capterra_url ''12345/Pulse'' p))))
                 [1..int 1]) =
              [\<lparr>title = ''Solid'', date = ''Feb 29, 2024'', rating = 4 :: rat,
                      reviewer_name = ''Cy M.'', review_text = ''Solid product.'',
                      source = ''capterra'', company = ''Pulse''\<rparr>]" by code_simp
  have e6: "map (build_g2_url ''pulse'') [1..int 0 + 1] =
              [''https://www.g2.com/products/pulse/reviews?page=1'']" by code_simp
  have e7: "map (build_capterra_url ''12345/Pulse'') [1..int 0 + 1] =
              [''https://www.capterra.com/p/12345/Pulse/reviews/'']" by code_simp
  show ?thesis
    by (intro conjI)
      (rule n1 n2 a1 a2 a3 a4 [unfolded e4 k4] a5 [unfolded e5 k5] a6 [unfolded e6]
         a7 [unfolded e7])+
qed

section \<open>The written file read back\<close>



end
